theory Spec2Isabelle
  imports Complex_Main "HOL-Library.Sublist"
begin

section \<open>The map editing controller of the barangay GIS editor\<close>

text \<open>
  The development embeds the class \<^verbatim>\<open>BarangayCagpileGISEditor\<close>: its fields become a record,
  each method a function from state to state, and the objects the methods share (features,
  drawable shapes) live in stores indexed by references, since the methods mutate them in
  place and several places hold the same object.

  The mapping library and the drawing toolkit are not part of the repository. Their layer
  groups, the map's layer registry and \<^verbatim>\<open>setStyle\<close> are modelled by their documented
  behaviour, in the subsection on the toolkit; the tile engine, zooming, the coordinate
  readout and tab switching touch none of the state modelled here and are left out.
  What the user answers to the confirmation dialog, what the clock reads and what a fetch
  returns are inputs of the functions that ask for them. The page elements the controller
  looks up by identifier are taken to be there, as the source takes them.

  The script of the page constructs the editor as \<^verbatim>\<open>new BarangayCappileGISEditor()\<close>, a name
  that no class has; what is verified here is the class as it is declared.
\<close>

subsection \<open>JavaScript values and strings\<close>

text \<open>
  A property value is a string or a number; numbers are the integer-valued ones (ids,
  resident counts, timestamps). An absent property (\<^verbatim>\<open>undefined\<close>) is \<open>None\<close> in the
  property map. Strings are byte strings; the check mark of the notifications is its three
  UTF-8 bytes.
\<close>

datatype jsval = JStr string | JNum int

type_synonym props = "string \<rightharpoonup> jsval"

fun truthy :: "jsval \<Rightarrow> bool" where
  "truthy (JStr s) = (s \<noteq> [])"
| "truthy (JNum n) = (n \<noteq> 0)"

definition por :: "jsval option \<Rightarrow> jsval \<Rightarrow> jsval" where
  \<comment> \<open>\<^verbatim>\<open>a || b\<close> where \<open>a\<close> is a property read\<close>
  "por a b = (case a of None \<Rightarrow> b | Some v \<Rightarrow> if truthy v then v else b)"

function show_nat :: "nat \<Rightarrow> string" where
  "show_nat n =
     (if n < 10 then [''0123456789'' ! n]
      else show_nat (n div 10) @ [''0123456789'' ! (n mod 10)])"
  by pat_completeness auto
termination
  by (relation "measure id") auto

declare show_nat.simps [simp del]

definition show_int :: "int \<Rightarrow> string" where
  "show_int i = (if i < 0 then ''-'' @ show_nat (nat (- i)) else show_nat (nat i))"

fun to_string :: "jsval \<Rightarrow> string" where
  \<comment> \<open>the conversion a template literal applies\<close>
  "to_string (JStr s) = s"
| "to_string (JNum n) = show_int n"

definition to_upper :: "char \<Rightarrow> char" where
  \<comment> \<open>\<^verbatim>\<open>toUpperCase\<close> on the ASCII letters\<close>
  "to_upper c =
     (case map_of (zip ''abcdefghijklmnopqrstuvwxyz'' ''ABCDEFGHIJKLMNOPQRSTUVWXYZ'') c of
        Some u \<Rightarrow> u
      | None \<Rightarrow> c)"

definition capitalize :: "string \<Rightarrow> string" where
  \<comment> \<open>\<^verbatim>\<open>s.charAt(0).toUpperCase() + s.slice(1)\<close>\<close>
  "capitalize s = map to_upper (take 1 s) @ drop 1 s"

fun replace_first :: "string \<Rightarrow> string \<Rightarrow> string \<Rightarrow> string" where
  \<comment> \<open>\<^verbatim>\<open>s.replace(pat, rep)\<close> with a string pattern: the first occurrence only\<close>
  "replace_first pat rep [] = (if pat = [] then rep else [])"
| "replace_first pat rep (c # cs) =
     (if prefix pat (c # cs) then rep @ drop (length pat) (c # cs)
      else c # replace_first pat rep cs)"

fun contains :: "string \<Rightarrow> string \<Rightarrow> bool" where
  \<comment> \<open>\<open>contains pat s\<close>: \<open>pat\<close> occurs in \<open>s\<close>\<close>
  "contains pat [] = (pat = [])"
| "contains pat (c # cs) = (prefix pat (c # cs) \<or> contains pat cs)"

definition nl :: string where
  "nl = [CHR 0x0A]"

definition check_mark :: string where
  "check_mark = [CHR 0xE2, CHR 0x9C, CHR 0x85]"

subsection \<open>Layers, features and shapes\<close>

text \<open>
  The layer names are the ones the controller passes around: the four keys of
  \<^verbatim>\<open>geojsonFiles\<close>, which are also the names of the four visibility checkboxes, and the
  literal \<^verbatim>\<open>'drawn'\<close>.
\<close>

datatype layer_name = Households | Facilities | Roads | Boundary | Drawn

fun layer_str :: "layer_name \<Rightarrow> string" where
  "layer_str Households = ''households''"
| "layer_str Facilities = ''facilities''"
| "layer_str Roads = ''roads''"
| "layer_str Boundary = ''boundary''"
| "layer_str Drawn = ''drawn''"

fun geojsonFiles :: "layer_name \<rightharpoonup> string" where
  "geojsonFiles Households = Some ''/api/households''"
| "geojsonFiles Facilities = Some ''/api/facilities''"
| "geojsonFiles Roads = Some ''/api/roads''"
| "geojsonFiles Boundary = Some ''/api/boundary''"
| "geojsonFiles Drawn = None"

fun colors :: "layer_name \<rightharpoonup> string" where
  "colors Households = Some ''#3388ff''"
| "colors Facilities = Some ''#27ae60''"
| "colors Roads = Some ''#7f8c8d''"
| "colors Boundary = Some ''#ff7800''"
| "colors Drawn = None"

text \<open>
  A geometry is what \<^verbatim>\<open>toGeoJSON().geometry\<close> gives for the shapes the editor draws and
  loads: a point, a line or a polygon, coordinates as longitude and latitude.
\<close>

datatype geometry =
  Point rat rat
| LineString "(rat \<times> rat) list"
| Polygon "(rat \<times> rat) list list"

record feature =
  properties :: "props option"
  geometry :: geometry

text \<open>
  A feature's \<open>properties\<close> is \<open>None\<close> when the GeoJSON has \<^verbatim>\<open>null\<close> there.
\<close>

type_synonym ref = nat

datatype shape_kind = CircleMarker | Marker | Polyline | PolygonShape | Rectangle

record path_options =
  radius :: "int option"
  fillColor :: "string option"
  color :: string
  weight :: int
  opacity :: "rat option"
  fillOpacity :: "rat option"

text \<open>
  The options of a path that the source sets; an option it does not give is \<open>None\<close>.

  A drawable shape. \<open>pathOptions\<close> is \<open>None\<close> for a shape with no \<^verbatim>\<open>setStyle\<close> (an icon
  marker); \<open>onClick\<close> is what the click handler the controller registers will select;
  \<open>shapeGeometry\<close> is the geometry the shape has on the map.
\<close>

record shape =
  kind :: shape_kind
  pathOptions :: "path_options option"
  editable :: bool
  popup :: "string option"
  onClick :: "(ref \<times> layer_name) option"
  shapeGeometry :: geometry

record selection =
  sel_feature :: ref
  sel_layer :: ref
  sel_layerName :: layer_name

record form_input =
  input_id :: string
  input_type :: string
  input_value :: string
  input_readonly :: bool

record form =
  form_title :: string
  form_inputs :: "form_input list"
  save_label :: string

text \<open>
  The page elements the controller writes. \<open>attributeEditor\<close> is \<open>None\<close> when the panel
  shows the no-selection placeholder, and the form otherwise: its inputs of class
  \<^verbatim>\<open>form-input\<close>, in document order, with the values the browser holds for them.
\<close>

record page =
  attributeEditor :: "form option"
  selectedCount :: string
  activeToolButton :: string
  currentToolText :: string
  mapBanner :: string
  currentLayerText :: string

record state = page +
  currentTool :: string
  currentLayer :: layer_name
  selectedFeature :: "selection option"
  isDrawing :: bool
  mapLayers :: "layer_name \<Rightarrow> ref list"
  mapGroups :: "layer_name set"
  mapShapes :: "ref set"
  shapes :: "ref \<rightharpoonup> shape"
  features :: "ref \<rightharpoonup> feature"
  next_ref :: ref
  editMode :: bool
  drawToolbarShown :: bool
  notifications :: "(string \<times> string) list"
  deletedLayers :: "ref list"

text \<open>
  \<open>mapLayers s n\<close> is the content of the layer group \<^verbatim>\<open>this.mapLayers[n]\<close>, in the order
  of insertion; \<^verbatim>\<open>this.drawnItems\<close> is the same object as \<^verbatim>\<open>this.mapLayers.drawn\<close>, so
  it is \<open>mapLayers s Drawn\<close>. \<open>mapGroups\<close> are the groups attached to the map and
  \<open>mapShapes\<close> the shapes the map displays. \<open>next_ref\<close> is the next unused reference.
  \<open>deletedLayers\<close> are the shapes that the toolkit's remove mode has taken out of the
  drawn-items group and holds until the mode is saved or cancelled.
\<close>

definition drawnItems :: "state \<Rightarrow> ref list" where
  "drawnItems s = mapLayers s Drawn"

subsection \<open>The toolkit: layer groups, the map and styles\<close>

definition map_hasLayer :: "ref \<Rightarrow> state \<Rightarrow> bool" where
  "map_hasLayer l s = (l \<in> mapShapes s)"

definition map_removeLayer :: "ref \<Rightarrow> state \<Rightarrow> state" where
  "map_removeLayer l s = s\<lparr>mapShapes := mapShapes s - {l}\<rparr>"

definition map_addGroup :: "layer_name \<Rightarrow> state \<Rightarrow> state" where
  \<comment> \<open>\<^verbatim>\<open>map.addLayer(group)\<close>: nothing when attached already, else the group and its shapes\<close>
  "map_addGroup n s =
     (if n \<in> mapGroups s then s
      else s\<lparr>mapGroups := insert n (mapGroups s),
             mapShapes := mapShapes s \<union> set (mapLayers s n)\<rparr>)"

definition map_removeGroup :: "layer_name \<Rightarrow> state \<Rightarrow> state" where
  \<comment> \<open>\<^verbatim>\<open>map.removeLayer(group)\<close>: nothing when not attached, else the group and its shapes\<close>
  "map_removeGroup n s =
     (if n \<notin> mapGroups s then s
      else s\<lparr>mapGroups := mapGroups s - {n},
             mapShapes := mapShapes s - set (mapLayers s n)\<rparr>)"

definition group_hasLayer :: "layer_name \<Rightarrow> ref \<Rightarrow> state \<Rightarrow> bool" where
  "group_hasLayer n l s = (l \<in> set (mapLayers s n))"

definition group_addLayer :: "layer_name \<Rightarrow> ref \<Rightarrow> state \<Rightarrow> state" where
  \<comment> \<open>the group keeps one entry for a shape; an attached group shows the shape on the map\<close>
  "group_addLayer n l s =
     (let g = mapLayers s n;
          s1 = s\<lparr>mapLayers := (mapLayers s)(n := (if l \<in> set g then g else g @ [l]))\<rparr>
      in if n \<in> mapGroups s then s1\<lparr>mapShapes := insert l (mapShapes s1)\<rparr> else s1)"

definition group_removeLayer :: "layer_name \<Rightarrow> ref \<Rightarrow> state \<Rightarrow> state" where
  \<comment> \<open>an attached group takes the shape off the map as well\<close>
  "group_removeLayer n l s =
     (let s1 = (if n \<in> mapGroups s \<and> l \<in> set (mapLayers s n) then map_removeLayer l s else s)
      in s1\<lparr>mapLayers := (mapLayers s1)(n := removeAll l (mapLayers s1 n))\<rparr>)"

definition setStyle :: "ref \<Rightarrow> int \<Rightarrow> string \<Rightarrow> state \<Rightarrow> state" where
  \<comment> \<open>\<^verbatim>\<open>layer.setStyle({weight: w, color: c})\<close>: the two options given, the others kept\<close>
  "setStyle l w c s =
     (case shapes s l of
        None \<Rightarrow> s
      | Some sh \<Rightarrow>
          (case pathOptions sh of
             None \<Rightarrow> s
           | Some po \<Rightarrow>
               s\<lparr>shapes := (shapes s)(l \<mapsto> sh\<lparr>pathOptions := Some (po\<lparr>color := c, weight := w\<rparr>)\<rparr>)\<rparr>))"

definition has_setStyle :: "ref \<Rightarrow> state \<Rightarrow> bool" where
  "has_setStyle l s =
     (case shapes s l of None \<Rightarrow> False | Some sh \<Rightarrow> pathOptions sh \<noteq> None)"

definition setPopupContent :: "ref \<Rightarrow> string \<Rightarrow> state \<Rightarrow> state" where
  \<comment> \<open>changes the content of the popup bound to the shape, if one is bound\<close>
  "setPopupContent l c s =
     (case shapes s l of
        None \<Rightarrow> s
      | Some sh \<Rightarrow>
          (case popup sh of
             None \<Rightarrow> s
           | Some old \<Rightarrow> s\<lparr>shapes := (shapes s)(l \<mapsto> sh\<lparr>popup := Some c\<rparr>)\<rparr>))"

definition bindPopup :: "ref \<Rightarrow> string \<Rightarrow> state \<Rightarrow> state" where
  "bindPopup l c s =
     (case shapes s l of
        None \<Rightarrow> s
      | Some sh \<Rightarrow> s\<lparr>shapes := (shapes s)(l \<mapsto> sh\<lparr>popup := Some c\<rparr>)\<rparr>)"

definition on_click :: "ref \<Rightarrow> ref \<Rightarrow> layer_name \<Rightarrow> state \<Rightarrow> state" where
  \<comment> \<open>\<^verbatim>\<open>layer.on('click', ...)\<close> with the handler that selects feature \<open>f\<close> under name \<open>n\<close>\<close>
  "on_click l f n s =
     (case shapes s l of
        None \<Rightarrow> s
      | Some sh \<Rightarrow> s\<lparr>shapes := (shapes s)(l \<mapsto> sh\<lparr>onClick := Some (f, n)\<rparr>)\<rparr>)"

subsection \<open>Notifications, popups and the attribute form\<close>

definition showNotification :: "string \<Rightarrow> string \<Rightarrow> state \<Rightarrow> state" where
  \<comment> \<open>the messages shown, oldest first; their removal after three seconds is not modelled\<close>
  "showNotification message ty s = s\<lparr>notifications := notifications s @ [(message, ty)]\<rparr>"

definition createPopupContent :: "feature \<Rightarrow> layer_name \<Rightarrow> string" where
  \<open>createPopupContent f layerName =
     (let props = (case properties f of None \<Rightarrow> Map.empty | Some p \<Rightarrow> p);
          content = ''<div style="min-width: 200px"><strong>''
                      @ capitalize (layer_str layerName) @ ''</strong>'';
          content =
            (if layerName = Households then
               content @ nl
               @ ''                <br><strong>Owner:</strong> ''
               @ to_string (por (props ''Owner'') (JStr ''N/A'')) @ nl
               @ ''                <br><strong>Family:</strong> ''
               @ to_string (por (props ''Family nm'') (JStr ''N/A'')) @ nl
               @ ''                <br><strong>Residents:</strong> ''
               @ to_string (por (props ''Residents'') (JStr ''0'')) @ nl
               @ ''                <br><em>Click to edit</em>'' @ nl
               @ ''            ''
             else if layerName = Facilities then
               content @ nl
               @ ''                <br><strong>Facility:</strong> ''
               @ to_string (por (props ''Facility'') (JStr ''N/A'')) @ nl
               @ ''                <br><em>Click to edit</em>'' @ nl
               @ ''            ''
             else content @ ''<br><em>Click to edit</em>'')
      in content @ ''</div>'')\<close>

text \<open>
  The value the browser holds for an input. A number input holds a valid floating-point
  number or nothing: an optional minus sign, digits or a point followed by digits or both,
  and an optional exponent. A text input holds no line break.
\<close>

definition is_digit :: "char \<Rightarrow> bool" where
  "is_digit c = (c \<in> set ''0123456789'')"

definition valid_exponent :: "string \<Rightarrow> bool" where
  "valid_exponent r =
     (case r of
        [] \<Rightarrow> True
      | c # t \<Rightarrow>
          (c = CHR ''e'' \<or> c = CHR ''E'')
          \<and> (let d = (case t of
                         [] \<Rightarrow> []
                       | x # u \<Rightarrow> if x = CHR ''-'' \<or> x = CHR ''+'' then u else t)
             in d \<noteq> [] \<and> list_all is_digit d))"

definition valid_number :: "string \<Rightarrow> bool" where
  "valid_number v =
     (let v1 = (case v of [] \<Rightarrow> [] | c # t \<Rightarrow> if c = CHR ''-'' then t else v);
          whole = takeWhile is_digit v1;
          r1 = dropWhile is_digit v1
      in case r1 of
           c # t \<Rightarrow>
             if c = CHR ''.''
             then takeWhile is_digit t \<noteq> [] \<and> valid_exponent (dropWhile is_digit t)
             else whole \<noteq> [] \<and> valid_exponent r1
         | [] \<Rightarrow> whole \<noteq> [])"

definition number_value :: "string \<Rightarrow> string" where
  "number_value v = (if valid_number v then v else [])"

definition text_value :: "string \<Rightarrow> string" where
  "text_value v = filter (\<lambda>c. c \<noteq> CHR 0x0A \<and> c \<noteq> CHR 0x0D) v"

definition plain_string :: "string \<Rightarrow> bool" where
  \<comment> \<open>a string that reads the same in the markup as in the script: no double quote, no
      character reference, no tag and no line break\<close>
  "plain_string v =
     list_all (\<lambda>c. c \<noteq> CHR 0x22 \<and> c \<noteq> CHR ''&'' \<and> c \<noteq> CHR ''<''
                    \<and> c \<noteq> CHR 0x0A \<and> c \<noteq> CHR 0x0D) v"

definition interpolated :: "props \<Rightarrow> string list" where
  \<comment> \<open>the property values that \<^verbatim>\<open>createAttributeForm\<close> writes into the markup\<close>
  "interpolated props =
     map to_string
       [por (props ''id'') (por (props ''ID'') (JStr ''N/A'')),
        por (props ''Owner'') (JStr []), por (props ''Family nm'') (JStr []),
        por (props ''Residents'') (JStr []), por (props ''Facility'') (JStr []),
        por (props ''name'') (por (props ''Name'') (JStr []))]"

definition plain_props :: "props \<Rightarrow> bool" where
  "plain_props props = list_all plain_string (interpolated props)"

text \<open>
  \<^verbatim>\<open>createAttributeForm\<close> returns markup, with the property values written into it as they
  are, and the browser reads the form from it. The definition gives the form the browser
  reads when the values are plain (\<open>plain_props\<close>). A value with a double quote or a
  character reference gives other inputs; the reachable states below provide for them.
\<close>

definition createAttributeForm :: "props \<Rightarrow> layer_name \<Rightarrow> bool \<Rightarrow> form" where
  \<comment> \<open>the form the generated HTML gives: its heading, its inputs, the label of its save button\<close>
  "createAttributeForm props layerName isNew =
     \<lparr>form_title =
        capitalize (layer_str layerName) @ '' ''
        @ (if isNew then ''(New)''
           else ''#'' @ to_string (por (props ''id'') (por (props ''ID'') (JStr ''N/A'')))),
      form_inputs =
        (if layerName = Households \<or> layerName = Drawn then
           [\<lparr>input_id = ''attr-id'', input_type = ''text'',
              input_value = to_string (por (props ''id'') (por (props ''ID'') (JStr []))),
              input_readonly = (\<not> isNew)\<rparr>,
            \<lparr>input_id = ''attr-owner'', input_type = ''text'',
              input_value = to_string (por (props ''Owner'') (JStr [])),
              input_readonly = False\<rparr>,
            \<lparr>input_id = ''attr-family'', input_type = ''text'',
              input_value = to_string (por (props ''Family nm'') (JStr [])),
              input_readonly = False\<rparr>,
            \<lparr>input_id = ''attr-residents'', input_type = ''number'',
              input_value = number_value (to_string (por (props ''Residents'') (JStr []))),
              input_readonly = False\<rparr>]
         else if layerName = Facilities then
           [\<lparr>input_id = ''attr-facility'', input_type = ''text'',
              input_value = to_string (por (props ''Facility'') (JStr [])),
              input_readonly = False\<rparr>]
         else
           [\<lparr>input_id = ''attr-name'', input_type = ''text'',
              input_value = to_string (por (props ''name'') (por (props ''Name'') (JStr []))),
              input_readonly = False\<rparr>]),
      save_label = (if isNew then ''Create'' else ''Save Changes'')\<rparr>"

definition showAttributeEditor :: "props \<Rightarrow> layer_name \<Rightarrow> bool \<Rightarrow> state \<Rightarrow> state" where
  "showAttributeEditor props layerName isNew s =
     s\<lparr>attributeEditor := Some (createAttributeForm props layerName isNew)\<rparr>"

definition typed_value :: "form_input \<Rightarrow> string \<Rightarrow> string" where
  \<comment> \<open>what an input holds after the user has typed \<open>v\<close> into it\<close>
  "typed_value inp v =
     (if input_readonly inp then input_value inp
      else if input_type inp = ''number'' then number_value v
      else text_value v)"

definition setInputValue :: "string \<Rightarrow> string \<Rightarrow> state \<Rightarrow> state" where
  \<comment> \<open>the user types \<open>v\<close> into the input with identifier \<open>i\<close>\<close>
  "setInputValue i v s =
     (case attributeEditor s of
        None \<Rightarrow> s
      | Some fm \<Rightarrow>
          s\<lparr>attributeEditor :=
              Some (fm\<lparr>form_inputs :=
                map (\<lambda>inp. if input_id inp = i then inp\<lparr>input_value := typed_value inp v\<rparr>
                           else inp)
                  (form_inputs fm)\<rparr>)\<rparr>)"

subsection \<open>Loading a layer\<close>

text \<open>
  A fetch ends in one of four ways: it is rejected, the status is not a success, the body is
  not JSON, or the body is a feature collection, given here by its features. A feature has a
  point, a line or a polygon as geometry; a collection that the toolkit refuses is not
  modelled.
\<close>

datatype fetch_result =
  NetworkFailure
| HttpStatusError
| ParseFailure
| Loaded "feature list"

definition pointToLayer :: "layer_name \<Rightarrow> path_options" where
  "pointToLayer layerName =
     \<lparr>radius = Some 8, fillColor = colors layerName, color = ''#000'', weight = 2,
      opacity = Some 1, fillOpacity = Some (8 / 10)\<rparr>"

definition style :: "layer_name \<Rightarrow> path_options \<Rightarrow> path_options" where
  \<comment> \<open>the options of the \<^verbatim>\<open>style\<close> callback, set on a shape that has \<^verbatim>\<open>setStyle\<close>\<close>
  "style layerName po =
     po\<lparr>fillColor := colors layerName, color := ''#000'', weight := 2,
        opacity := Some (8 / 10), fillOpacity := Some (6 / 10)\<rparr>"

definition default_path :: path_options where
  \<comment> \<open>the toolkit's options of a line or polygon before the style callback sets its own\<close>
  "default_path =
     \<lparr>radius = None, fillColor = None, color = ''#3388ff'', weight = 3,
      opacity = Some 1, fillOpacity = Some (2 / 10)\<rparr>"

definition geometryToLayer :: "layer_name \<Rightarrow> geometry \<Rightarrow> shape" where
  "geometryToLayer layerName g =
     (case g of
        Point x y \<Rightarrow>
          \<lparr>kind = CircleMarker, pathOptions = Some (style layerName (pointToLayer layerName)),
           editable = False, popup = None, onClick = None, shapeGeometry = g\<rparr>
      | LineString ps \<Rightarrow>
          \<lparr>kind = Polyline, pathOptions = Some (style layerName default_path),
           editable = False, popup = None, onClick = None, shapeGeometry = g\<rparr>
      | Polygon rs \<Rightarrow>
          \<lparr>kind = PolygonShape, pathOptions = Some (style layerName default_path),
           editable = False, popup = None, onClick = None, shapeGeometry = g\<rparr>)"

definition onEachFeature :: "layer_name \<Rightarrow> feature \<Rightarrow> state \<Rightarrow> state" where
  \<comment> \<open>one feature of the response: its shape is made, then the callback of the controller\<close>
  "onEachFeature layerName f s =
     (let l = next_ref s;
          sh = (geometryToLayer layerName (geometry f))\<lparr>editable := True\<rparr>;
          s1 = s\<lparr>shapes := (shapes s)(l \<mapsto> sh), features := (features s)(l \<mapsto> f),
                 next_ref := Suc l\<rparr>;
          s2 = bindPopup l (createPopupContent f layerName) s1;
          s3 = on_click l l layerName s2
      in group_addLayer layerName l s3)"

definition addGeoJSONToMap :: "feature list \<Rightarrow> layer_name \<Rightarrow> state \<Rightarrow> state" where
  "addGeoJSONToMap fs layerName s = fold (onEachFeature layerName) fs s"

record household_sample =
  lat :: rat
  lng :: rat
  sample_id :: int
  sample_name :: string
  sample_owner :: string
  sample_residents :: int

definition sampleHouseholds :: "household_sample list" where
  "sampleHouseholds =
     [\<lparr>lat = 122390 / 10000, lng = 1253180 / 10000, sample_id = 101,
       sample_name = ''Cruz Family'', sample_owner = ''Juan Cruz'', sample_residents = 4\<rparr>,
      \<lparr>lat = 122395 / 10000, lng = 1253190 / 10000, sample_id = 102,
       sample_name = ''Santos Family'', sample_owner = ''Maria Santos'', sample_residents = 5\<rparr>,
      \<lparr>lat = 122400 / 10000, lng = 1253195 / 10000, sample_id = 103,
       sample_name = ''Reyes Family'', sample_owner = ''Pedro Reyes'', sample_residents = 3\<rparr>]"

definition sample_feature :: "household_sample \<Rightarrow> feature" where
  "sample_feature h =
     \<lparr>properties =
        Some [''id'' \<mapsto> JNum (sample_id h), ''Owner'' \<mapsto> JStr (sample_owner h),
              ''Family nm'' \<mapsto> JStr (sample_name h),
              ''Residents'' \<mapsto> JNum (sample_residents h)],
      geometry = Point (lng h) (lat h)\<rparr>"

definition sample_marker :: "layer_name \<Rightarrow> household_sample \<Rightarrow> shape" where
  "sample_marker layerName h =
     \<lparr>kind = CircleMarker,
      pathOptions =
        Some \<lparr>radius = Some 8, fillColor = colors layerName, color = ''#000'', weight = 2,
              opacity = None, fillOpacity = Some (8 / 10)\<rparr>,
      editable = False, popup = None, onClick = None,
      shapeGeometry = Point (lng h) (lat h)\<rparr>"

definition addSample :: "layer_name \<Rightarrow> household_sample \<Rightarrow> state \<Rightarrow> state" where
  \<comment> \<open>the body of the \<^verbatim>\<open>forEach\<close> of \<^verbatim>\<open>createSampleData\<close>\<close>
  "addSample layerName h s =
     (let l = next_ref s;
          s1 = s\<lparr>shapes := (shapes s)(l \<mapsto> sample_marker layerName h),
                 features := (features s)(l \<mapsto> sample_feature h),
                 next_ref := Suc l\<rparr>;
          s2 = bindPopup l (createPopupContent (sample_feature h) layerName) s1;
          s3 = on_click l l layerName s2
      in group_addLayer layerName l s3)"

definition createSampleData :: "layer_name \<Rightarrow> state \<Rightarrow> state" where
  "createSampleData layerName s =
     (if layerName = Households then fold (addSample layerName) sampleHouseholds s else s)"

definition loadGeoJSONLayer :: "layer_name \<Rightarrow> fetch_result \<Rightarrow> state \<Rightarrow> state" where
  \<comment> \<open>the fetch of the layer's endpoint has completed with the given result\<close>
  "loadGeoJSONLayer layerName res s =
     (case res of
        Loaded fs \<Rightarrow> addGeoJSONToMap fs layerName s
      | _ \<Rightarrow>
          createSampleData layerName
            (showNotification (''Error loading '' @ layer_str layerName @ '' data'') ''error'' s))"

subsection \<open>Selection\<close>

definition layer_color :: "layer_name \<Rightarrow> string" where
  \<comment> \<open>\<^verbatim>\<open>this.colors[layerName] || '#3388ff'\<close>\<close>
  "layer_color n = (case colors n of Some c \<Rightarrow> c | None \<Rightarrow> ''#3388ff'')"

definition restoreSelectedStyle :: "state \<Rightarrow> state" where
  \<comment> \<open>the first statement of \<^verbatim>\<open>selectFeature\<close> and of \<^verbatim>\<open>deselectFeature\<close>\<close>
  "restoreSelectedStyle s =
     (case selectedFeature s of
        None \<Rightarrow> s
      | Some sel \<Rightarrow>
          if has_setStyle (sel_layer sel) s
          then setStyle (sel_layer sel) 2 (layer_color (sel_layerName sel)) s
          else s)"

definition storeSelection :: "ref \<Rightarrow> ref \<Rightarrow> layer_name \<Rightarrow> state \<Rightarrow> state" where
  "storeSelection f l layerName s =
     s\<lparr>selectedFeature := Some \<lparr>sel_feature = f, sel_layer = l, sel_layerName = layerName\<rparr>\<rparr>"

definition highlight :: "ref \<Rightarrow> state \<Rightarrow> state" where
  "highlight l s = (if has_setStyle l s then setStyle l 4 ''#ff0000'' s else s)"

definition feature_properties :: "state \<Rightarrow> ref \<Rightarrow> props option" where
  "feature_properties s f = (case features s f of None \<Rightarrow> None | Some ft \<Rightarrow> properties ft)"

definition showSelected :: "ref \<Rightarrow> layer_name \<Rightarrow> bool \<Rightarrow> state \<Rightarrow> state" where
  \<comment> \<open>the last two statements of \<^verbatim>\<open>selectFeature\<close>; building the form of a feature whose
      properties are null raises a TypeError, which ends the handler there\<close>
  "showSelected f layerName isNew s =
     (case feature_properties s f of
        None \<Rightarrow> s
      | Some p \<Rightarrow> (showAttributeEditor p layerName isNew s)\<lparr>selectedCount := ''1''\<rparr>)"

definition selectFeature :: "ref \<Rightarrow> ref \<Rightarrow> layer_name \<Rightarrow> bool \<Rightarrow> state \<Rightarrow> state" where
  "selectFeature f l layerName isNew s =
     showSelected f layerName isNew
       (highlight l (storeSelection f l layerName (restoreSelectedStyle s)))"

definition selectFeature_trace ::
  "ref \<Rightarrow> ref \<Rightarrow> layer_name \<Rightarrow> bool \<Rightarrow> state \<Rightarrow> state list" where
  \<comment> \<open>the states \<^verbatim>\<open>selectFeature\<close> goes through: at entry and after each of its statements\<close>
  "selectFeature_trace f l layerName isNew s =
     (let s1 = restoreSelectedStyle s;
          s2 = storeSelection f l layerName s1;
          s3 = highlight l s2;
          s4 = showSelected f layerName isNew s3
      in [s, s1, s2, s3, s4])"

definition deselectFeature :: "state \<Rightarrow> state" where
  "deselectFeature s =
     (restoreSelectedStyle s)\<lparr>selectedFeature := None, attributeEditor := None,
                               selectedCount := ''0''\<rparr>"

subsection \<open>Saving and deleting\<close>

definition field_key :: "form_input \<Rightarrow> string" where
  "field_key inp = replace_first ''attr-'' [] (input_id inp)"

definition updatedProperties :: "form_input list \<Rightarrow> props" where
  \<comment> \<open>the \<^verbatim>\<open>forEach\<close> over the inputs; an input's value is a string\<close>
  "updatedProperties inputs =
     fold (\<lambda>inp m. m(field_key inp \<mapsto> JStr (input_value inp))) inputs Map.empty"

definition saveAttributes :: "state \<Rightarrow> state" where
  "saveAttributes s =
     (case selectedFeature s of
        None \<Rightarrow> s
      | Some sel \<Rightarrow>
          (case features s (sel_feature sel) of
             None \<Rightarrow> s
           | Some ft \<Rightarrow>
               (let inputs = (case attributeEditor s of None \<Rightarrow> [] | Some fm \<Rightarrow> form_inputs fm);
                    old = (case properties ft of None \<Rightarrow> Map.empty | Some p \<Rightarrow> p);
                    ft' = ft\<lparr>properties := Some (old ++ updatedProperties inputs)\<rparr>;
                    s1 = s\<lparr>features := (features s)(sel_feature sel \<mapsto> ft')\<rparr>;
                    popupContent = createPopupContent ft' (sel_layerName sel);
                    s2 = setPopupContent (sel_layer sel) popupContent s1
                in showNotification (check_mark @ '' Feature saved successfully!'') ''success'' s2)))"

definition deleteSelectedFeature :: "bool \<Rightarrow> state \<Rightarrow> state" where
  \<comment> \<open>\<open>answer\<close> is what the user answers to the confirmation, asked only with a selection\<close>
  "deleteSelectedFeature answer s =
     (case selectedFeature s of
        None \<Rightarrow> s
      | Some sel \<Rightarrow>
          if \<not> answer then s
          else
            (let l = sel_layer sel;
                 layerName = sel_layerName sel;
                 s1 = (if map_hasLayer l s then map_removeLayer l s else s);
                 s2 = (if group_hasLayer layerName l s1 then group_removeLayer layerName l s1
                       else s1);
                 s3 = (if group_hasLayer Drawn l s2 then group_removeLayer Drawn l s2 else s2);
                 s4 = deselectFeature s3
             in showNotification (check_mark @ '' Feature deleted successfully!'') ''success'' s4))"

subsection \<open>Layer visibility and tools\<close>

definition toggleLayer :: "layer_name \<Rightarrow> bool \<Rightarrow> state \<Rightarrow> state" where
  \<comment> \<open>every layer name has its group, so the guard on \<^verbatim>\<open>this.mapLayers[layerName]\<close> holds\<close>
  "toggleLayer layerName visible s =
     (let s1 = (if visible then map_addGroup layerName s else map_removeGroup layerName s)
      in if visible
         then s1\<lparr>currentLayer := layerName,
                 currentLayerText := capitalize (layer_str layerName)\<rparr>
         else s1)"

definition hideDrawToolbar :: "state \<Rightarrow> state" where
  "hideDrawToolbar s = s\<lparr>drawToolbarShown := False\<rparr>"

definition showDrawToolbar :: "state \<Rightarrow> state" where
  "showDrawToolbar s = s\<lparr>drawToolbarShown := True\<rparr>"

definition startDrawing :: "string \<Rightarrow> state \<Rightarrow> state" where
  \<comment> \<open>the click on the toolkit's draw button, a tenth of a second later, starts the
      toolkit's own drawing mode and changes nothing here\<close>
  "startDrawing drawType s = showDrawToolbar (s\<lparr>isDrawing := True\<rparr>)"

definition enableTool :: "string \<Rightarrow> bool \<Rightarrow> state \<Rightarrow> state" where
  "enableTool tool answer s =
     (let s1 = (hideDrawToolbar s)\<lparr>isDrawing := False\<rparr>
      in if tool = ''select'' then s1
         else if tool = ''edit''
           then (if length (drawnItems s1) > 0 then s1\<lparr>editMode := True\<rparr> else s1)
         else if tool = ''marker'' then startDrawing ''marker'' s1
         else if tool = ''polygon'' then startDrawing ''polygon'' s1
         else if tool = ''rectangle'' then startDrawing ''rectangle'' s1
         else if tool = ''polyline'' then startDrawing ''polyline'' s1
         else if tool = ''move'' then s1
         else if tool = ''delete''
           then (if selectedFeature s1 \<noteq> None then deleteSelectedFeature answer s1 else s1)
         else s1)"

definition setActiveTool :: "string \<Rightarrow> bool \<Rightarrow> state \<Rightarrow> state" where
  \<comment> \<open>\<open>answer\<close> is read by the delete tool only. The tool is that of the button clicked, or
      \<^verbatim>\<open>select\<close> after a drawing; its button is on the page, like the other elements.\<close>
  \<open>setActiveTool tool answer s =
     enableTool tool answer
       (s\<lparr>currentTool := tool,
          activeToolButton := tool,
          currentToolText := capitalize tool,
          mapBanner := ''Using: <strong>'' @ capitalize tool @ ''</strong> Tool on <strong>''
                       @ layer_str (currentLayer s) @ ''</strong> Layer''\<rparr>)\<close>

subsection \<open>The draw events\<close>

definition getDefaultProperties :: "(nat \<Rightarrow> int) \<Rightarrow> layer_name \<Rightarrow> props" where
  \<comment> \<open>\<open>now k\<close> is what the clock reads at the \<open>k\<close>-th \<^verbatim>\<open>Date.now()\<close> of the call\<close>
  "getDefaultProperties now layerName =
     (let defaults =
            [Households \<mapsto>
               [''id'' \<mapsto> JNum (now 0), ''Owner'' \<mapsto> JStr ''New Owner'',
                ''Family nm'' \<mapsto> JStr ''New Family'', ''Residents'' \<mapsto> JNum 1],
             Facilities \<mapsto> [''id'' \<mapsto> JNum (now 1), ''Facility'' \<mapsto> JStr ''New Facility''],
             Drawn \<mapsto> [''id'' \<mapsto> JNum (now 2), ''name'' \<mapsto> JStr ''New Feature'']]
      in case defaults layerName of
           Some d \<Rightarrow> d
         | None \<Rightarrow> [''id'' \<mapsto> JNum (now 3), ''name'' \<mapsto> JStr ''New Feature''])"

record draw_event =
  ev_kind :: shape_kind
  ev_options :: "path_options option"
  ev_geometry :: geometry
  layerType :: string

definition drawn_shape :: "draw_event \<Rightarrow> shape" where
  \<comment> \<open>the shape \<^verbatim>\<open>e.layer\<close> as the toolkit hands it over\<close>
  "drawn_shape e =
     \<lparr>kind = ev_kind e, pathOptions = ev_options e, editable = False, popup = None,
      onClick = None, shapeGeometry = ev_geometry e\<rparr>"

definition handleDrawCreated :: "draw_event \<Rightarrow> (nat \<Rightarrow> int) \<Rightarrow> state \<Rightarrow> state" where
  "handleDrawCreated e now s =
     (let l = next_ref s;
          s0 = s\<lparr>shapes := (shapes s)(l \<mapsto> drawn_shape e), next_ref := Suc l\<rparr>;
          s1 = group_addLayer Drawn l s0;
          newFeature = \<lparr>properties = Some (getDefaultProperties now (currentLayer s1)),
                        geometry = ev_geometry e\<rparr>;
          s2 = s1\<lparr>features := (features s1)(l \<mapsto> newFeature)\<rparr>;
          s3 = on_click l l Drawn s2;
          s4 = bindPopup l (createPopupContent newFeature Drawn) s3;
          s5 = selectFeature l l Drawn True s4;
          s6 = showNotification (''New '' @ layerType e @ '' created'') ''success'' s5
      in setActiveTool ''select'' False s6)"

definition reshape :: "ref \<Rightarrow> geometry \<Rightarrow> state \<Rightarrow> state" where
  \<comment> \<open>the toolkit's edit mode gives a shape of the drawn-items group a new geometry\<close>
  "reshape l g s =
     (case shapes s l of
        None \<Rightarrow> s
      | Some sh \<Rightarrow>
          if l \<in> set (drawnItems s)
          then s\<lparr>shapes := (shapes s)(l \<mapsto> sh\<lparr>shapeGeometry := g\<rparr>)\<rparr>
          else s)"

definition toolkit_edit :: "(ref \<times> geometry) list \<Rightarrow> state \<Rightarrow> state" where
  \<comment> \<open>the toolkit's edit mode, saved: the shapes it has reshaped, with their geometries\<close>
  "toolkit_edit e s = fold (\<lambda>(l, g). reshape l g) e s"

definition handleDrawEdited :: "(ref \<times> geometry) list \<Rightarrow> state \<Rightarrow> state" where
  "handleDrawEdited e s = showNotification ''Features updated successfully'' ''success'' s"

definition toolkit_remove :: "ref \<Rightarrow> state \<Rightarrow> state" where
  \<comment> \<open>the toolkit's remove mode, at a click on a shape of the drawn-items group: the shape
      leaves the group at once and the toolkit keeps it\<close>
  "toolkit_remove l s =
     (if l \<in> set (drawnItems s)
      then (group_removeLayer Drawn l s)\<lparr>deletedLayers := deletedLayers s @ [l]\<rparr>
      else s)"

definition toolkit_revert :: "state \<Rightarrow> state" where
  \<comment> \<open>the remove mode, cancelled: the shapes it kept are back in the group; no event is
      sent to the controller\<close>
  "toolkit_revert s =
     (fold (group_addLayer Drawn) (deletedLayers s) s)\<lparr>deletedLayers := []\<rparr>"

definition handleDrawDeleted :: "ref list \<Rightarrow> state \<Rightarrow> state" where
  "handleDrawDeleted e s =
     showNotification ''Features deleted successfully'' ''success'' (deselectFeature s)"

definition toolkit_save :: "state \<Rightarrow> state" where
  \<comment> \<open>the remove mode, saved: the draw-deleted event, with the shapes the toolkit kept\<close>
  "toolkit_save s = handleDrawDeleted (deletedLayers s) (s\<lparr>deletedLayers := []\<rparr>)"

subsection \<open>Construction and the reachable states\<close>

definition init :: "page \<Rightarrow> state" where
  \<comment> \<open>the constructor up to the start of the fetches, on the page as it was served\<close>
  "init p =
     \<lparr>attributeEditor = attributeEditor p,
      selectedCount = selectedCount p,
      activeToolButton = activeToolButton p,
      currentToolText = currentToolText p,
      mapBanner = mapBanner p,
      currentLayerText = currentLayerText p,
      currentTool = ''select'',
      currentLayer = Households,
      selectedFeature = None,
      isDrawing = False,
      mapLayers = (\<lambda>n. []),
      mapGroups = {Households, Facilities, Roads, Boundary, Drawn},
      mapShapes = {},
      shapes = Map.empty,
      features = Map.empty,
      next_ref = 0,
      editMode = False,
      drawToolbarShown = False,
      notifications = [],
      deletedLayers = []\<rparr>"

definition highlight_options :: "path_options option \<Rightarrow> bool" where
  "highlight_options po =
     (case po of None \<Rightarrow> False | Some o' \<Rightarrow> weight o' = 4 \<and> color o' = ''#ff0000'')"

text \<open>
  The states the page rests in, one event after another: construction, the completion of
  a fetch, a click on a shape the map shows, a click on the map's background, a tool
  button, a new drawing (the toolkit never draws in the highlight style), typing into the
  form, the form's two buttons and a visibility checkbox. The toolkit's edit and remove
  modes work in two steps, and the page rests between them: a shape is reshaped, or taken
  out of the drawn-items group, when the user acts on it, and the controller hears of it
  when the mode is saved (draw-edited, draw-deleted), or never, when the mode is
  cancelled. A click on a shape in remove mode is first the click of the controller's own
  handler and then the removal. Last, the form of a feature whose values are not plain is
  whatever the browser has read from the markup.
\<close>

inductive reachable :: "state \<Rightarrow> bool" where
  constructed: "reachable (init p)"
| fetched: "reachable s \<Longrightarrow> geojsonFiles n \<noteq> None \<Longrightarrow> reachable (loadGeoJSONLayer n res s)"
| clicked: "reachable s \<Longrightarrow> l \<in> mapShapes s \<Longrightarrow> shapes s l = Some sh
    \<Longrightarrow> onClick sh = Some (f, n) \<Longrightarrow> reachable (selectFeature f l n False s)"
| background: "reachable s \<Longrightarrow> reachable (deselectFeature s)"
| tool: "reachable s \<Longrightarrow> reachable (setActiveTool t answer s)"
| drawn: "reachable s \<Longrightarrow> \<not> highlight_options (ev_options e)
    \<Longrightarrow> reachable (handleDrawCreated e now s)"
| reshaped: "reachable s \<Longrightarrow> reachable (reshape l g s)"
| edited: "reachable s \<Longrightarrow> reachable (handleDrawEdited e s)"
| removed: "reachable s \<Longrightarrow> reachable (toolkit_remove l s)"
| deleted: "reachable s \<Longrightarrow> reachable (toolkit_save s)"
| reverted: "reachable s \<Longrightarrow> reachable (toolkit_revert s)"
| typed: "reachable s \<Longrightarrow> reachable (setInputValue i v s)"
| rendered: "reachable s \<Longrightarrow> selectedFeature s = Some sel
    \<Longrightarrow> feature_properties s (sel_feature sel) = Some props \<Longrightarrow> \<not> plain_props props
    \<Longrightarrow> reachable (s\<lparr>attributeEditor := Some fm\<rparr>)"
| saved: "reachable s \<Longrightarrow> reachable (saveAttributes s)"
| deleting: "reachable s \<Longrightarrow> reachable (deleteSelectedFeature answer s)"
| toggled: "reachable s \<Longrightarrow> n \<noteq> Drawn \<Longrightarrow> reachable (toggleLayer n visible s)"

subsection \<open>The properties verified\<close>

definition all_layers :: "layer_name list" where
  "all_layers = [Households, Facilities, Roads, Boundary, Drawn]"

definition in_some_group :: "state \<Rightarrow> ref \<Rightarrow> bool" where
  "in_some_group s l = (\<exists>n \<in> set all_layers. l \<in> set (mapLayers s n))"

definition selection_in_group :: "state \<Rightarrow> bool" where
  \<comment> \<open>the selection, if there is one, is of a shape that some layer group holds\<close>
  "selection_in_group s =
     (case selectedFeature s of None \<Rightarrow> True | Some sel \<Rightarrow> in_some_group s (sel_layer sel))"

definition selection_held :: "state \<Rightarrow> bool" where
  \<comment> \<open>the selection, if there is one, is of a shape that some layer group holds, or that
      the toolkit's remove mode has taken out and keeps\<close>
  "selection_held s =
     (case selectedFeature s of
        None \<Rightarrow> True
      | Some sel \<Rightarrow> in_some_group s (sel_layer sel) \<or> sel_layer sel \<in> set (deletedLayers s))"

definition shown_in_group :: "state \<Rightarrow> bool" where
  \<comment> \<open>a shape the map shows is held by a group attached to the map\<close>
  "shown_in_group s = (\<forall>l \<in> mapShapes s. \<exists>n \<in> mapGroups s. l \<in> set (mapLayers s n))"

definition refs_fresh :: "state \<Rightarrow> bool" where
  \<comment> \<open>no group, no stored feature and no shape the toolkit keeps uses a reference not yet
      given out\<close>
  "refs_fresh s =
     ((\<forall>n. \<forall>l \<in> set (mapLayers s n). l < next_ref s)
      \<and> (\<forall>f. features s f \<noteq> None \<longrightarrow> f < next_ref s)
      \<and> (\<forall>l \<in> set (deletedLayers s). l < next_ref s))"

definition controller_inv :: "state \<Rightarrow> bool" where
  "controller_inv s \<longleftrightarrow> selection_held s \<and> shown_in_group s \<and> refs_fresh s"

definition highlighted :: "state \<Rightarrow> ref \<Rightarrow> bool" where
  \<comment> \<open>the shape carries the highlight style: outline of weight 4 in red\<close>
  "highlighted s l =
     (case shapes s l of None \<Rightarrow> False | Some sh \<Rightarrow> highlight_options (pathOptions sh))"

definition normal_style :: "layer_name \<Rightarrow> state \<Rightarrow> ref \<Rightarrow> bool" where
  \<comment> \<open>the shape carries the unselected style of the layer: outline of weight 2 in its colour\<close>
  "normal_style n s l =
     (case shapes s l of
        None \<Rightarrow> False
      | Some sh \<Rightarrow>
          (case pathOptions sh of
             None \<Rightarrow> False
           | Some po \<Rightarrow> weight po = 2 \<and> color po = layer_color n))"

definition only_selection_highlighted :: "state \<Rightarrow> bool" where
  "only_selection_highlighted s =
     (\<forall>l. highlighted s l \<longrightarrow>
        (case selectedFeature s of None \<Rightarrow> False | Some sel \<Rightarrow> sel_layer sel = l))"

definition at_most_one_highlighted :: "state \<Rightarrow> bool" where
  "at_most_one_highlighted s = (\<forall>a b. highlighted s a \<and> highlighted s b \<longrightarrow> a = b)"

definition failed :: "fetch_result \<Rightarrow> bool" where
  "failed res = (case res of Loaded fs \<Rightarrow> False | _ \<Rightarrow> True)"

definition shape_feature_id :: "state \<Rightarrow> ref \<Rightarrow> jsval option" where
  \<comment> \<open>the \<^verbatim>\<open>id\<close> property of the feature that a click on the shape selects\<close>
  "shape_feature_id s l =
     (case shapes s l of
        None \<Rightarrow> None
      | Some sh \<Rightarrow>
          (case onClick sh of
             None \<Rightarrow> None
           | Some (f, n) \<Rightarrow>
               (case feature_properties s f of None \<Rightarrow> None | Some p \<Rightarrow> p ''id'')))"

definition group_ids :: "state \<Rightarrow> layer_name \<Rightarrow> jsval option list" where
  "group_ids s n = map (shape_feature_id s) (mapLayers s n)"

definition form_keys :: "state \<Rightarrow> string list" where
  \<comment> \<open>the property keys that \<^verbatim>\<open>saveAttributes\<close> derives from the inputs of the form shown\<close>
  "form_keys s =
     (case attributeEditor s of None \<Rightarrow> [] | Some fm \<Rightarrow> map field_key (form_inputs fm))"

definition popup_of :: "state \<Rightarrow> ref \<Rightarrow> string" where
  "popup_of s l =
     (case shapes s l of None \<Rightarrow> [] | Some sh \<Rightarrow> (case popup sh of None \<Rightarrow> [] | Some c \<Rightarrow> c))"

subsection \<open>Example states\<close>

definition blank_page :: page where
  "blank_page =
     \<lparr>attributeEditor = None, selectedCount = ''0'', activeToolButton = ''select'',
      currentToolText = ''Select'', mapBanner = [], currentLayerText = ''Households''\<rparr>"

definition sample_state :: state where
  \<comment> \<open>the households endpoint has answered with an error status\<close>
  "sample_state = loadGeoJSONLayer Households HttpStatusError (init blank_page)"

definition juan_selected :: state where
  \<comment> \<open>then the user has clicked the first sample household\<close>
  "juan_selected = selectFeature 0 0 Households False sample_state"

definition owner_typed :: state where
  \<comment> \<open>and has typed X into the owner field\<close>
  "owner_typed = setInputValue ''attr-owner'' ''X'' juan_selected"

definition marker_event :: draw_event where
  "marker_event =
     \<lparr>ev_kind = Marker, ev_options = None,
      ev_geometry = Point (1253185 / 10000) (122392 / 10000), layerType = ''marker''\<rparr>"

definition example_clock :: "nat \<Rightarrow> int" where
  \<comment> \<open>a clock that advances by a millisecond between two readings\<close>
  "example_clock k = 1700000000000 + int k"

definition census_feature :: feature where
  \<comment> \<open>a household as the households endpoint serves it\<close>
  "census_feature =
     \<lparr>properties =
        Some [''ID'' \<mapsto> JNum 7, ''Owner'' \<mapsto> JStr ''Ana Lim'', ''Family nm'' \<mapsto> JStr ''Lim'',
              ''Residents'' \<mapsto> JNum 6, ''senior/PWD'' \<mapsto> JStr ''yes'',
              ''Contact no'' \<mapsto> JStr ''0917''],
      geometry = Point (1253187 / 10000) (122391 / 10000)\<rparr>"

definition census_selected :: state where
  \<comment> \<open>the households endpoint has served that one household, and the user has clicked it\<close>
  "census_selected =
     selectFeature 0 0 Households False
       (loadGeoJSONLayer Households (Loaded [census_feature]) (init blank_page))"

definition shape_core ::
  "shape \<Rightarrow> shape_kind \<times> string option \<times> (ref \<times> layer_name) option \<times> geometry" where
  \<comment> \<open>what a change of style leaves alone: kind, popup, click handler and geometry\<close>
  "shape_core sh = (kind sh, popup sh, onClick sh, shapeGeometry sh)"

definition marker_drawn :: state where
  \<comment> \<open>on the blank page, the user has drawn a marker\<close>
  "marker_drawn = handleDrawCreated marker_event example_clock (init blank_page)"

definition marker_clicked :: state where
  \<comment> \<open>then, with the toolkit in remove mode, has clicked the marker: the controller's
      click handler, bound when the marker was drawn, runs first\<close>
  "marker_clicked = selectFeature 0 0 Drawn False marker_drawn"

definition marker_removed :: state where
  \<comment> \<open>and the toolkit's handler takes the marker out of the drawn-items group\<close>
  "marker_removed = toolkit_remove 0 marker_clicked"

section \<open>Verification\<close>

subsection \<open>What each operation leaves alone\<close>

lemma map_removeLayer_frame [simp]:
  "selectedFeature (map_removeLayer l s) = selectedFeature s"
  "mapLayers (map_removeLayer l s) = mapLayers s"
  "mapGroups (map_removeLayer l s) = mapGroups s"
  "shapes (map_removeLayer l s) = shapes s"
  "features (map_removeLayer l s) = features s"
  "next_ref (map_removeLayer l s) = next_ref s"
  "currentLayer (map_removeLayer l s) = currentLayer s"
  "currentTool (map_removeLayer l s) = currentTool s"
  "attributeEditor (map_removeLayer l s) = attributeEditor s"
  "deletedLayers (map_removeLayer l s) = deletedLayers s"
  by (simp_all add: map_removeLayer_def)

lemma map_addGroup_frame [simp]:
  "selectedFeature (map_addGroup n s) = selectedFeature s"
  "mapLayers (map_addGroup n s) = mapLayers s"
  "shapes (map_addGroup n s) = shapes s"
  "features (map_addGroup n s) = features s"
  "next_ref (map_addGroup n s) = next_ref s"
  "currentLayer (map_addGroup n s) = currentLayer s"
  "currentTool (map_addGroup n s) = currentTool s"
  "attributeEditor (map_addGroup n s) = attributeEditor s"
  "deletedLayers (map_addGroup n s) = deletedLayers s"
  by (simp_all add: map_addGroup_def)

lemma map_removeGroup_frame [simp]:
  "selectedFeature (map_removeGroup n s) = selectedFeature s"
  "mapLayers (map_removeGroup n s) = mapLayers s"
  "shapes (map_removeGroup n s) = shapes s"
  "features (map_removeGroup n s) = features s"
  "next_ref (map_removeGroup n s) = next_ref s"
  "currentLayer (map_removeGroup n s) = currentLayer s"
  "currentTool (map_removeGroup n s) = currentTool s"
  "attributeEditor (map_removeGroup n s) = attributeEditor s"
  "deletedLayers (map_removeGroup n s) = deletedLayers s"
  by (simp_all add: map_removeGroup_def)

lemma group_addLayer_frame [simp]:
  "selectedFeature (group_addLayer n l s) = selectedFeature s"
  "mapGroups (group_addLayer n l s) = mapGroups s"
  "shapes (group_addLayer n l s) = shapes s"
  "features (group_addLayer n l s) = features s"
  "next_ref (group_addLayer n l s) = next_ref s"
  "currentLayer (group_addLayer n l s) = currentLayer s"
  "currentTool (group_addLayer n l s) = currentTool s"
  "attributeEditor (group_addLayer n l s) = attributeEditor s"
  "deletedLayers (group_addLayer n l s) = deletedLayers s"
  by (simp_all add: group_addLayer_def Let_def)

lemma group_removeLayer_frame [simp]:
  "selectedFeature (group_removeLayer n l s) = selectedFeature s"
  "mapGroups (group_removeLayer n l s) = mapGroups s"
  "shapes (group_removeLayer n l s) = shapes s"
  "features (group_removeLayer n l s) = features s"
  "next_ref (group_removeLayer n l s) = next_ref s"
  "currentLayer (group_removeLayer n l s) = currentLayer s"
  "currentTool (group_removeLayer n l s) = currentTool s"
  "attributeEditor (group_removeLayer n l s) = attributeEditor s"
  "deletedLayers (group_removeLayer n l s) = deletedLayers s"
  by (simp_all add: group_removeLayer_def Let_def)

lemma setStyle_frame [simp]:
  "selectedFeature (setStyle l w c s) = selectedFeature s"
  "mapLayers (setStyle l w c s) = mapLayers s"
  "mapGroups (setStyle l w c s) = mapGroups s"
  "mapShapes (setStyle l w c s) = mapShapes s"
  "features (setStyle l w c s) = features s"
  "next_ref (setStyle l w c s) = next_ref s"
  "currentLayer (setStyle l w c s) = currentLayer s"
  "currentTool (setStyle l w c s) = currentTool s"
  "attributeEditor (setStyle l w c s) = attributeEditor s"
  "deletedLayers (setStyle l w c s) = deletedLayers s"
  by (simp_all add: setStyle_def split: option.splits)

lemma setPopupContent_frame [simp]:
  "selectedFeature (setPopupContent l c s) = selectedFeature s"
  "mapLayers (setPopupContent l c s) = mapLayers s"
  "mapGroups (setPopupContent l c s) = mapGroups s"
  "mapShapes (setPopupContent l c s) = mapShapes s"
  "features (setPopupContent l c s) = features s"
  "next_ref (setPopupContent l c s) = next_ref s"
  "currentLayer (setPopupContent l c s) = currentLayer s"
  "currentTool (setPopupContent l c s) = currentTool s"
  "attributeEditor (setPopupContent l c s) = attributeEditor s"
  "deletedLayers (setPopupContent l c s) = deletedLayers s"
  by (simp_all add: setPopupContent_def split: option.splits)

lemma bindPopup_frame [simp]:
  "selectedFeature (bindPopup l c s) = selectedFeature s"
  "mapLayers (bindPopup l c s) = mapLayers s"
  "mapGroups (bindPopup l c s) = mapGroups s"
  "mapShapes (bindPopup l c s) = mapShapes s"
  "features (bindPopup l c s) = features s"
  "next_ref (bindPopup l c s) = next_ref s"
  "currentLayer (bindPopup l c s) = currentLayer s"
  "currentTool (bindPopup l c s) = currentTool s"
  "attributeEditor (bindPopup l c s) = attributeEditor s"
  "deletedLayers (bindPopup l c s) = deletedLayers s"
  by (simp_all add: bindPopup_def split: option.splits)

lemma on_click_frame [simp]:
  "selectedFeature (on_click l f n s) = selectedFeature s"
  "mapLayers (on_click l f n s) = mapLayers s"
  "mapGroups (on_click l f n s) = mapGroups s"
  "mapShapes (on_click l f n s) = mapShapes s"
  "features (on_click l f n s) = features s"
  "next_ref (on_click l f n s) = next_ref s"
  "currentLayer (on_click l f n s) = currentLayer s"
  "currentTool (on_click l f n s) = currentTool s"
  "attributeEditor (on_click l f n s) = attributeEditor s"
  "deletedLayers (on_click l f n s) = deletedLayers s"
  by (simp_all add: on_click_def split: option.splits)

lemma showNotification_frame [simp]:
  "selectedFeature (showNotification m ty s) = selectedFeature s"
  "mapLayers (showNotification m ty s) = mapLayers s"
  "mapGroups (showNotification m ty s) = mapGroups s"
  "mapShapes (showNotification m ty s) = mapShapes s"
  "shapes (showNotification m ty s) = shapes s"
  "features (showNotification m ty s) = features s"
  "next_ref (showNotification m ty s) = next_ref s"
  "currentLayer (showNotification m ty s) = currentLayer s"
  "currentTool (showNotification m ty s) = currentTool s"
  "attributeEditor (showNotification m ty s) = attributeEditor s"
  "deletedLayers (showNotification m ty s) = deletedLayers s"
  by (simp_all add: showNotification_def)

lemma showAttributeEditor_frame [simp]:
  "selectedFeature (showAttributeEditor p n b s) = selectedFeature s"
  "mapLayers (showAttributeEditor p n b s) = mapLayers s"
  "mapGroups (showAttributeEditor p n b s) = mapGroups s"
  "mapShapes (showAttributeEditor p n b s) = mapShapes s"
  "shapes (showAttributeEditor p n b s) = shapes s"
  "features (showAttributeEditor p n b s) = features s"
  "next_ref (showAttributeEditor p n b s) = next_ref s"
  "currentLayer (showAttributeEditor p n b s) = currentLayer s"
  "currentTool (showAttributeEditor p n b s) = currentTool s"
  "deletedLayers (showAttributeEditor p n b s) = deletedLayers s"
  by (simp_all add: showAttributeEditor_def)

lemma setInputValue_frame [simp]:
  "selectedFeature (setInputValue i v s) = selectedFeature s"
  "mapLayers (setInputValue i v s) = mapLayers s"
  "mapGroups (setInputValue i v s) = mapGroups s"
  "mapShapes (setInputValue i v s) = mapShapes s"
  "shapes (setInputValue i v s) = shapes s"
  "features (setInputValue i v s) = features s"
  "next_ref (setInputValue i v s) = next_ref s"
  "currentLayer (setInputValue i v s) = currentLayer s"
  "currentTool (setInputValue i v s) = currentTool s"
  "deletedLayers (setInputValue i v s) = deletedLayers s"
  by (simp_all add: setInputValue_def split: option.splits)

lemma restoreSelectedStyle_frame [simp]:
  "selectedFeature (restoreSelectedStyle s) = selectedFeature s"
  "mapLayers (restoreSelectedStyle s) = mapLayers s"
  "mapGroups (restoreSelectedStyle s) = mapGroups s"
  "mapShapes (restoreSelectedStyle s) = mapShapes s"
  "features (restoreSelectedStyle s) = features s"
  "next_ref (restoreSelectedStyle s) = next_ref s"
  "currentLayer (restoreSelectedStyle s) = currentLayer s"
  "currentTool (restoreSelectedStyle s) = currentTool s"
  "attributeEditor (restoreSelectedStyle s) = attributeEditor s"
  "deletedLayers (restoreSelectedStyle s) = deletedLayers s"
  by (simp_all add: restoreSelectedStyle_def split: option.splits)

lemma storeSelection_frame [simp]:
  "mapLayers (storeSelection f l n s) = mapLayers s"
  "mapGroups (storeSelection f l n s) = mapGroups s"
  "mapShapes (storeSelection f l n s) = mapShapes s"
  "shapes (storeSelection f l n s) = shapes s"
  "features (storeSelection f l n s) = features s"
  "next_ref (storeSelection f l n s) = next_ref s"
  "currentLayer (storeSelection f l n s) = currentLayer s"
  "currentTool (storeSelection f l n s) = currentTool s"
  "attributeEditor (storeSelection f l n s) = attributeEditor s"
  "deletedLayers (storeSelection f l n s) = deletedLayers s"
  by (simp_all add: storeSelection_def)

lemma highlight_frame [simp]:
  "selectedFeature (highlight l s) = selectedFeature s"
  "mapLayers (highlight l s) = mapLayers s"
  "mapGroups (highlight l s) = mapGroups s"
  "mapShapes (highlight l s) = mapShapes s"
  "features (highlight l s) = features s"
  "next_ref (highlight l s) = next_ref s"
  "currentLayer (highlight l s) = currentLayer s"
  "currentTool (highlight l s) = currentTool s"
  "attributeEditor (highlight l s) = attributeEditor s"
  "deletedLayers (highlight l s) = deletedLayers s"
  by (simp_all add: highlight_def)

lemma showSelected_frame [simp]:
  "selectedFeature (showSelected f n b s) = selectedFeature s"
  "mapLayers (showSelected f n b s) = mapLayers s"
  "mapGroups (showSelected f n b s) = mapGroups s"
  "mapShapes (showSelected f n b s) = mapShapes s"
  "shapes (showSelected f n b s) = shapes s"
  "features (showSelected f n b s) = features s"
  "next_ref (showSelected f n b s) = next_ref s"
  "currentLayer (showSelected f n b s) = currentLayer s"
  "currentTool (showSelected f n b s) = currentTool s"
  "deletedLayers (showSelected f n b s) = deletedLayers s"
  by (simp_all add: showSelected_def split: option.splits)

lemma selectFeature_frame [simp]:
  "mapLayers (selectFeature f l n b s) = mapLayers s"
  "mapGroups (selectFeature f l n b s) = mapGroups s"
  "mapShapes (selectFeature f l n b s) = mapShapes s"
  "features (selectFeature f l n b s) = features s"
  "next_ref (selectFeature f l n b s) = next_ref s"
  "currentLayer (selectFeature f l n b s) = currentLayer s"
  "currentTool (selectFeature f l n b s) = currentTool s"
  "deletedLayers (selectFeature f l n b s) = deletedLayers s"
  by (simp_all add: selectFeature_def)

lemma deselectFeature_frame [simp]:
  "mapLayers (deselectFeature s) = mapLayers s"
  "mapGroups (deselectFeature s) = mapGroups s"
  "mapShapes (deselectFeature s) = mapShapes s"
  "features (deselectFeature s) = features s"
  "next_ref (deselectFeature s) = next_ref s"
  "currentLayer (deselectFeature s) = currentLayer s"
  "currentTool (deselectFeature s) = currentTool s"
  "deletedLayers (deselectFeature s) = deletedLayers s"
  by (simp_all add: deselectFeature_def)

lemma toggleLayer_frame [simp]:
  "selectedFeature (toggleLayer n v s) = selectedFeature s"
  "mapLayers (toggleLayer n v s) = mapLayers s"
  "shapes (toggleLayer n v s) = shapes s"
  "features (toggleLayer n v s) = features s"
  "next_ref (toggleLayer n v s) = next_ref s"
  "currentTool (toggleLayer n v s) = currentTool s"
  "attributeEditor (toggleLayer n v s) = attributeEditor s"
  "deletedLayers (toggleLayer n v s) = deletedLayers s"
  by (simp_all add: toggleLayer_def Let_def)

lemma hideDrawToolbar_frame [simp]:
  "selectedFeature (hideDrawToolbar s) = selectedFeature s"
  "mapLayers (hideDrawToolbar s) = mapLayers s"
  "mapGroups (hideDrawToolbar s) = mapGroups s"
  "mapShapes (hideDrawToolbar s) = mapShapes s"
  "shapes (hideDrawToolbar s) = shapes s"
  "features (hideDrawToolbar s) = features s"
  "next_ref (hideDrawToolbar s) = next_ref s"
  "currentLayer (hideDrawToolbar s) = currentLayer s"
  "currentTool (hideDrawToolbar s) = currentTool s"
  "attributeEditor (hideDrawToolbar s) = attributeEditor s"
  "deletedLayers (hideDrawToolbar s) = deletedLayers s"
  by (simp_all add: hideDrawToolbar_def)

lemma startDrawing_frame [simp]:
  "selectedFeature (startDrawing d s) = selectedFeature s"
  "mapLayers (startDrawing d s) = mapLayers s"
  "mapGroups (startDrawing d s) = mapGroups s"
  "mapShapes (startDrawing d s) = mapShapes s"
  "shapes (startDrawing d s) = shapes s"
  "features (startDrawing d s) = features s"
  "next_ref (startDrawing d s) = next_ref s"
  "currentLayer (startDrawing d s) = currentLayer s"
  "currentTool (startDrawing d s) = currentTool s"
  "attributeEditor (startDrawing d s) = attributeEditor s"
  "deletedLayers (startDrawing d s) = deletedLayers s"
  by (simp_all add: startDrawing_def showDrawToolbar_def)

lemma handleDrawEdited_frame [simp]:
  "selectedFeature (handleDrawEdited e s) = selectedFeature s"
  "mapLayers (handleDrawEdited e s) = mapLayers s"
  "mapGroups (handleDrawEdited e s) = mapGroups s"
  "mapShapes (handleDrawEdited e s) = mapShapes s"
  "shapes (handleDrawEdited e s) = shapes s"
  "features (handleDrawEdited e s) = features s"
  "next_ref (handleDrawEdited e s) = next_ref s"
  "currentLayer (handleDrawEdited e s) = currentLayer s"
  "currentTool (handleDrawEdited e s) = currentTool s"
  "attributeEditor (handleDrawEdited e s) = attributeEditor s"
  "deletedLayers (handleDrawEdited e s) = deletedLayers s"
  by (simp_all add: handleDrawEdited_def)

lemma map_removeLayer_mapShapes [simp]:
  "mapShapes (map_removeLayer l s) = mapShapes s - {l}"
  by (simp add: map_removeLayer_def)

lemma map_addGroup_changes [simp]:
  "mapGroups (map_addGroup n s) = insert n (mapGroups s)"
  "mapShapes (map_addGroup n s) =
     (if n \<in> mapGroups s then mapShapes s else mapShapes s \<union> set (mapLayers s n))"
  by (auto simp add: map_addGroup_def)

lemma map_removeGroup_changes [simp]:
  "mapGroups (map_removeGroup n s) = mapGroups s - {n}"
  "mapShapes (map_removeGroup n s) =
     (if n \<in> mapGroups s then mapShapes s - set (mapLayers s n) else mapShapes s)"
  by (auto simp add: map_removeGroup_def)

lemma group_addLayer_changes [simp]:
  "mapLayers (group_addLayer n l s) =
     (mapLayers s)(n := (if l \<in> set (mapLayers s n) then mapLayers s n else mapLayers s n @ [l]))"
  "mapShapes (group_addLayer n l s) =
     (if n \<in> mapGroups s then insert l (mapShapes s) else mapShapes s)"
  by (simp_all add: group_addLayer_def Let_def)

lemma group_removeLayer_changes [simp]:
  "mapLayers (group_removeLayer n l s) = (mapLayers s)(n := removeAll l (mapLayers s n))"
  "mapShapes (group_removeLayer n l s) =
     (if n \<in> mapGroups s \<and> l \<in> set (mapLayers s n) then mapShapes s - {l} else mapShapes s)"
  by (simp_all add: group_removeLayer_def Let_def)

lemma selectFeature_selection [simp]:
  "selectedFeature (selectFeature f l n b s) =
     Some \<lparr>sel_feature = f, sel_layer = l, sel_layerName = n\<rparr>"
  by (simp add: selectFeature_def storeSelection_def)

lemma deselectFeature_selection [simp]:
  "selectedFeature (deselectFeature s) = None"
  "attributeEditor (deselectFeature s) = None"
  by (simp_all add: deselectFeature_def)

lemma saveAttributes_frame [simp]:
  "selectedFeature (saveAttributes s) = selectedFeature s"
  "mapLayers (saveAttributes s) = mapLayers s"
  "mapGroups (saveAttributes s) = mapGroups s"
  "mapShapes (saveAttributes s) = mapShapes s"
  "next_ref (saveAttributes s) = next_ref s"
  "currentLayer (saveAttributes s) = currentLayer s"
  "currentTool (saveAttributes s) = currentTool s"
  "attributeEditor (saveAttributes s) = attributeEditor s"
  "deletedLayers (saveAttributes s) = deletedLayers s"
  by (simp_all add: saveAttributes_def Let_def split: option.splits)

lemma deleteSelectedFeature_frame [simp]:
  "mapGroups (deleteSelectedFeature a s) = mapGroups s"
  "features (deleteSelectedFeature a s) = features s"
  "next_ref (deleteSelectedFeature a s) = next_ref s"
  "currentLayer (deleteSelectedFeature a s) = currentLayer s"
  "currentTool (deleteSelectedFeature a s) = currentTool s"
  "deletedLayers (deleteSelectedFeature a s) = deletedLayers s"
  by (simp_all add: deleteSelectedFeature_def Let_def split: option.splits)

lemma enableTool_frame [simp]:
  "mapGroups (enableTool t a s) = mapGroups s"
  "features (enableTool t a s) = features s"
  "next_ref (enableTool t a s) = next_ref s"
  "currentLayer (enableTool t a s) = currentLayer s"
  "currentTool (enableTool t a s) = currentTool s"
  "deletedLayers (enableTool t a s) = deletedLayers s"
  by (simp_all add: enableTool_def Let_def)

lemma setActiveTool_frame [simp]:
  "mapGroups (setActiveTool t a s) = mapGroups s"
  "features (setActiveTool t a s) = features s"
  "next_ref (setActiveTool t a s) = next_ref s"
  "currentLayer (setActiveTool t a s) = currentLayer s"
  "currentTool (setActiveTool t a s) = t"
  "deletedLayers (setActiveTool t a s) = deletedLayers s"
  by (simp_all add: setActiveTool_def)

lemma enableTool_select [simp]:
  "selectedFeature (enableTool ''select'' a s) = selectedFeature s"
  "mapLayers (enableTool ''select'' a s) = mapLayers s"
  "mapShapes (enableTool ''select'' a s) = mapShapes s"
  "shapes (enableTool ''select'' a s) = shapes s"
  "attributeEditor (enableTool ''select'' a s) = attributeEditor s"
  by (simp_all add: enableTool_def)

lemma setActiveTool_select [simp]:
  "selectedFeature (setActiveTool ''select'' a s) = selectedFeature s"
  "mapLayers (setActiveTool ''select'' a s) = mapLayers s"
  "mapShapes (setActiveTool ''select'' a s) = mapShapes s"
  "shapes (setActiveTool ''select'' a s) = shapes s"
  "attributeEditor (setActiveTool ''select'' a s) = attributeEditor s"
  by (simp_all add: setActiveTool_def)
subsection \<open>Creating shapes\<close>

lemma addSample_frame [simp]:
  "selectedFeature (addSample n h s) = selectedFeature s"
  "mapGroups (addSample n h s) = mapGroups s"
  "currentLayer (addSample n h s) = currentLayer s"
  "currentTool (addSample n h s) = currentTool s"
  "attributeEditor (addSample n h s) = attributeEditor s"
  "next_ref (addSample n h s) = Suc (next_ref s)"
  "deletedLayers (addSample n h s) = deletedLayers s"
  by (simp_all add: addSample_def Let_def)

lemma addSample_changes:
  "shapes (addSample n h s) =
     (shapes s)(next_ref s \<mapsto>
        (sample_marker n h)\<lparr>popup := Some (createPopupContent (sample_feature h) n),
                             onClick := Some (next_ref s, n)\<rparr>)"
  "features (addSample n h s) = (features s)(next_ref s \<mapsto> sample_feature h)"
  "mapLayers (addSample n h s) =
     (mapLayers s)(n := (if next_ref s \<in> set (mapLayers s n) then mapLayers s n
                         else mapLayers s n @ [next_ref s]))"
  "mapShapes (addSample n h s) =
     (if n \<in> mapGroups s then insert (next_ref s) (mapShapes s) else mapShapes s)"
  by (simp_all add: addSample_def Let_def bindPopup_def on_click_def)

lemma onEachFeature_frame [simp]:
  "selectedFeature (onEachFeature n f s) = selectedFeature s"
  "mapGroups (onEachFeature n f s) = mapGroups s"
  "currentLayer (onEachFeature n f s) = currentLayer s"
  "currentTool (onEachFeature n f s) = currentTool s"
  "attributeEditor (onEachFeature n f s) = attributeEditor s"
  "next_ref (onEachFeature n f s) = Suc (next_ref s)"
  "deletedLayers (onEachFeature n f s) = deletedLayers s"
  by (simp_all add: onEachFeature_def Let_def)

lemma onEachFeature_changes:
  "shapes (onEachFeature n f s) =
     (shapes s)(next_ref s \<mapsto>
        (geometryToLayer n (geometry f))\<lparr>editable := True,
          popup := Some (createPopupContent f n), onClick := Some (next_ref s, n)\<rparr>)"
  "features (onEachFeature n f s) = (features s)(next_ref s \<mapsto> f)"
  "mapLayers (onEachFeature n f s) =
     (mapLayers s)(n := (if next_ref s \<in> set (mapLayers s n) then mapLayers s n
                         else mapLayers s n @ [next_ref s]))"
  "mapShapes (onEachFeature n f s) =
     (if n \<in> mapGroups s then insert (next_ref s) (mapShapes s) else mapShapes s)"
  by (simp_all add: onEachFeature_def Let_def bindPopup_def on_click_def)
subsection \<open>Invariants of the reachable states\<close>

lemma in_some_group_iff: "in_some_group s l \<longleftrightarrow> (\<exists>n. l \<in> set (mapLayers s n))"
proof
  assume "in_some_group s l"
  then show "\<exists>n. l \<in> set (mapLayers s n)"
    by (auto simp add: in_some_group_def)
next
  assume "\<exists>n. l \<in> set (mapLayers s n)"
  then obtain n where "l \<in> set (mapLayers s n)" ..
  moreover have "n \<in> set all_layers"
    by (cases n) (simp_all add: all_layers_def)
  ultimately show "in_some_group s l"
    unfolding in_some_group_def by blast
qed

lemma selection_in_group_iff:
  "selection_in_group s \<longleftrightarrow>
     (\<forall>sel. selectedFeature s = Some sel \<longrightarrow> (\<exists>n. sel_layer sel \<in> set (mapLayers s n)))"
  by (simp add: selection_in_group_def in_some_group_iff split: option.splits)

lemma selection_held_iff:
  "selection_held s \<longleftrightarrow>
     (\<forall>sel. selectedFeature s = Some sel \<longrightarrow>
        (\<exists>n. sel_layer sel \<in> set (mapLayers s n)) \<or> sel_layer sel \<in> set (deletedLayers s))"
  by (simp add: selection_held_def in_some_group_iff split: option.splits)

lemma fold_preserves:
  assumes "\<And>x t. P t \<Longrightarrow> P (f x t)" and "P s"
  shows "P (fold f xs s)"
  using assms(2) by (induction xs arbitrary: s) (simp_all add: assms(1))

lemma inv_init: "controller_inv (init p)"
  by (simp add: controller_inv_def selection_held_def shown_in_group_def refs_fresh_def
      init_def)

lemma inv_addSample: "controller_inv s \<Longrightarrow> controller_inv (addSample n h s)"
  unfolding controller_inv_def selection_held_iff shown_in_group_def refs_fresh_def
  by (auto simp add: addSample_changes less_Suc_eq)

lemma inv_onEachFeature: "controller_inv s \<Longrightarrow> controller_inv (onEachFeature n f s)"
  unfolding controller_inv_def selection_held_iff shown_in_group_def refs_fresh_def
  by (auto simp add: onEachFeature_changes less_Suc_eq)

lemma inv_showNotification [simp]:
  "controller_inv (showNotification m ty s) = controller_inv s"
  by (simp add: controller_inv_def selection_held_iff shown_in_group_def refs_fresh_def)

lemma inv_load: "controller_inv s \<Longrightarrow> controller_inv (loadGeoJSONLayer n res s)"
  by (cases res)
    (simp_all add: loadGeoJSONLayer_def createSampleData_def addGeoJSONToMap_def
      fold_preserves inv_addSample inv_onEachFeature)

lemma inv_select:
  assumes "controller_inv s" and "l \<in> mapShapes s"
  shows "controller_inv (selectFeature f l n b s)"
proof -
  from assms have "\<exists>m. l \<in> set (mapLayers s m)"
    by (auto simp add: controller_inv_def shown_in_group_def)
  with assms(1) show ?thesis
    unfolding controller_inv_def selection_held_iff shown_in_group_def refs_fresh_def
    by simp
qed

lemma inv_deselect: "controller_inv s \<Longrightarrow> controller_inv (deselectFeature s)"
  unfolding controller_inv_def selection_held_iff shown_in_group_def refs_fresh_def
  by simp

lemma deleteSelectedFeature_changes:
  "selectedFeature (deleteSelectedFeature a s) = (if a then None else selectedFeature s)"
  "mapLayers (deleteSelectedFeature a s) =
     (case selectedFeature s of
        None \<Rightarrow> mapLayers s
      | Some sel \<Rightarrow>
          if a
          then (\<lambda>m. if m = sel_layerName sel \<or> m = Drawn
                     then removeAll (sel_layer sel) (mapLayers s m) else mapLayers s m)
          else mapLayers s)"
  "mapShapes (deleteSelectedFeature a s) =
     (case selectedFeature s of
        None \<Rightarrow> mapShapes s
      | Some sel \<Rightarrow> if a then mapShapes s - {sel_layer sel} else mapShapes s)"
  by (auto simp add: deleteSelectedFeature_def Let_def map_hasLayer_def group_hasLayer_def
      fun_eq_iff split: option.splits)

lemma inv_delete: "controller_inv s \<Longrightarrow> controller_inv (deleteSelectedFeature a s)"
  unfolding controller_inv_def selection_held_iff shown_in_group_def refs_fresh_def
  by (auto simp add: deleteSelectedFeature_changes split: option.splits) metis+
lemma controller_inv_cong:
  assumes "selectedFeature t = selectedFeature s" "mapLayers t = mapLayers s"
    "mapGroups t = mapGroups s" "mapShapes t = mapShapes s"
    "features t = features s" "next_ref t = next_ref s" "deletedLayers t = deletedLayers s"
  shows "controller_inv t = controller_inv s"
  using assms
  by (simp add: controller_inv_def selection_held_iff shown_in_group_def refs_fresh_def)

lemma enableTool_other:
  assumes "t \<noteq> ''delete''"
  shows "selectedFeature (enableTool t a s) = selectedFeature s"
    and "mapLayers (enableTool t a s) = mapLayers s"
    and "mapShapes (enableTool t a s) = mapShapes s"
  using assms by (simp_all add: enableTool_def Let_def)

lemma enableTool_delete:
  "enableTool ''delete'' a s =
     (let s1 = (hideDrawToolbar s)\<lparr>isDrawing := False\<rparr>
      in if selectedFeature s1 \<noteq> None then deleteSelectedFeature a s1 else s1)"
  by (simp add: enableTool_def)

lemma inv_enableTool:
  assumes "controller_inv s"
  shows "controller_inv (enableTool t a s)"
proof (cases "t = ''delete''")
  case True
  have "controller_inv ((hideDrawToolbar s)\<lparr>isDrawing := False\<rparr>)"
    using assms by (simp add: controller_inv_cong [of "(hideDrawToolbar s)\<lparr>isDrawing := False\<rparr>" s])
  then show ?thesis
    unfolding True enableTool_delete Let_def by (simp add: inv_delete)
next
  case False
  have "controller_inv (enableTool t a s) = controller_inv s"
    by (rule controller_inv_cong) (simp_all add: enableTool_other False)
  with assms show ?thesis
    by simp
qed

lemma inv_tool:
  assumes "controller_inv s"
  shows "controller_inv (setActiveTool t a s)"
  unfolding setActiveTool_def
proof (rule inv_enableTool)
  let ?u = "s\<lparr>currentTool := t, activeToolButton := t, currentToolText := capitalize t,
    mapBanner := ''Using: <strong>'' @ capitalize t @ ''</strong> Tool on <strong>''
                       @ layer_str (currentLayer s) @ ''</strong> Layer''\<rparr>"
  have "controller_inv ?u = controller_inv s"
    by (rule controller_inv_cong) simp_all
  with assms show "controller_inv ?u"
    by simp
qed
lemma handleDrawCreated_changes:
  "selectedFeature (handleDrawCreated e now s) =
     Some \<lparr>sel_feature = next_ref s, sel_layer = next_ref s, sel_layerName = Drawn\<rparr>"
  "mapLayers (handleDrawCreated e now s) =
     (mapLayers s)(Drawn := (if next_ref s \<in> set (mapLayers s Drawn) then mapLayers s Drawn
                             else mapLayers s Drawn @ [next_ref s]))"
  "mapShapes (handleDrawCreated e now s) =
     (if Drawn \<in> mapGroups s then insert (next_ref s) (mapShapes s) else mapShapes s)"
  "mapGroups (handleDrawCreated e now s) = mapGroups s"
  "features (handleDrawCreated e now s) =
     (features s)(next_ref s \<mapsto>
        \<lparr>properties = Some (getDefaultProperties now (currentLayer s)),
         geometry = ev_geometry e\<rparr>)"
  "next_ref (handleDrawCreated e now s) = Suc (next_ref s)"
  "currentTool (handleDrawCreated e now s) = ''select''"
  "currentLayer (handleDrawCreated e now s) = currentLayer s"
  "deletedLayers (handleDrawCreated e now s) = deletedLayers s"
  by (simp_all add: handleDrawCreated_def Let_def)

lemma inv_new_shape:
  assumes inv: "controller_inv s"
    and groups: "mapGroups t = mapGroups s"
    and layers: "mapLayers t =
      (mapLayers s)(n := (if next_ref s \<in> set (mapLayers s n) then mapLayers s n
                          else mapLayers s n @ [next_ref s]))"
    and shown: "mapShapes t =
      (if n \<in> mapGroups s then insert (next_ref s) (mapShapes s) else mapShapes s)"
    and nxt: "next_ref t = Suc (next_ref s)"
    and feats: "features t = (features s)(next_ref s \<mapsto> ft)"
    and kept: "deletedLayers t = deletedLayers s"
    and sel: "selectedFeature t = selectedFeature s \<or>
      (\<exists>sel. selectedFeature t = Some sel \<and> sel_layer sel = next_ref s)"
  shows "controller_inv t"
proof -
  have mono: "x \<in> set (mapLayers t m)" if "x \<in> set (mapLayers s m)" for x m
    using that by (auto simp add: layers)
  have new: "next_ref s \<in> set (mapLayers t n)"
    by (simp add: layers)
  have "selection_held t"
    unfolding selection_held_iff
  proof (intro allI impI)
    fix sl
    assume a: "selectedFeature t = Some sl"
    from sel show "(\<exists>m. sel_layer sl \<in> set (mapLayers t m))
        \<or> sel_layer sl \<in> set (deletedLayers t)"
    proof
      assume "selectedFeature t = selectedFeature s"
      with a inv have "(\<exists>m. sel_layer sl \<in> set (mapLayers s m))
          \<or> sel_layer sl \<in> set (deletedLayers s)"
        by (auto simp add: controller_inv_def selection_held_iff)
      then show ?thesis using mono kept by auto
    next
      assume "\<exists>sel. selectedFeature t = Some sel \<and> sel_layer sel = next_ref s"
      with a have "sel_layer sl = next_ref s" by auto
      with new show ?thesis by auto
    qed
  qed
  moreover have "shown_in_group t"
    unfolding shown_in_group_def
  proof
    fix x
    assume "x \<in> mapShapes t"
    then consider "x = next_ref s" "n \<in> mapGroups s" | "x \<in> mapShapes s"
      by (auto simp add: shown split: if_splits)
    then show "\<exists>m\<in>mapGroups t. x \<in> set (mapLayers t m)"
    proof cases
      case 1
      with new show ?thesis by (auto simp add: groups)
    next
      case 2
      with inv obtain m where "m \<in> mapGroups s" "x \<in> set (mapLayers s m)"
        by (auto simp add: controller_inv_def shown_in_group_def)
      then show ?thesis using mono by (auto simp add: groups)
    qed
  qed
  moreover have "refs_fresh t"
    using inv
    unfolding controller_inv_def refs_fresh_def
    by (auto simp add: layers nxt feats kept less_Suc_eq split: if_splits)
  ultimately show ?thesis
    by (simp add: controller_inv_def)
qed

lemma inv_drawn: "controller_inv s \<Longrightarrow> controller_inv (handleDrawCreated e now s)"
proof -
  assume "controller_inv s"
  then show ?thesis
  proof (rule inv_new_shape [where n = Drawn])
    show "selectedFeature (handleDrawCreated e now s) = selectedFeature s \<or>
      (\<exists>sel. selectedFeature (handleDrawCreated e now s) = Some sel
         \<and> sel_layer sel = next_ref s)"
      by (simp add: handleDrawCreated_changes)
  qed (simp_all add: handleDrawCreated_changes)
qed
lemma reshape_frame [simp]:
  "selectedFeature (reshape l g s) = selectedFeature s"
  "mapLayers (reshape l g s) = mapLayers s"
  "mapGroups (reshape l g s) = mapGroups s"
  "mapShapes (reshape l g s) = mapShapes s"
  "features (reshape l g s) = features s"
  "next_ref (reshape l g s) = next_ref s"
  "currentLayer (reshape l g s) = currentLayer s"
  "currentTool (reshape l g s) = currentTool s"
  "attributeEditor (reshape l g s) = attributeEditor s"
  "deletedLayers (reshape l g s) = deletedLayers s"
  by (simp_all add: reshape_def split: option.splits)

lemma toolkit_edit_frame [simp]:
  "selectedFeature (toolkit_edit e s) = selectedFeature s"
  "mapLayers (toolkit_edit e s) = mapLayers s"
  "mapGroups (toolkit_edit e s) = mapGroups s"
  "mapShapes (toolkit_edit e s) = mapShapes s"
  "features (toolkit_edit e s) = features s"
  "next_ref (toolkit_edit e s) = next_ref s"
  "currentLayer (toolkit_edit e s) = currentLayer s"
  "currentTool (toolkit_edit e s) = currentTool s"
  "attributeEditor (toolkit_edit e s) = attributeEditor s"
  "deletedLayers (toolkit_edit e s) = deletedLayers s"
  unfolding toolkit_edit_def
  by (induction e arbitrary: s; simp split: prod.splits)+

lemma shown_group_removeLayer:
  assumes "shown_in_group s"
  shows "shown_in_group (group_removeLayer n l s)"
  unfolding shown_in_group_def
proof
  fix x
  assume x: "x \<in> mapShapes (group_removeLayer n l s)"
  then have "x \<in> mapShapes s"
    by (simp split: if_splits)
  with assms obtain m where m: "m \<in> mapGroups s" "x \<in> set (mapLayers s m)"
    by (auto simp add: shown_in_group_def)
  have "x \<in> set (mapLayers (group_removeLayer n l s) m)"
  proof (cases "m = n \<and> x = l")
    case True
    with m x show ?thesis by simp
  next
    case False
    with m show ?thesis by auto
  qed
  moreover have "m \<in> mapGroups (group_removeLayer n l s)"
    using m(1) by simp
  ultimately show "\<exists>m\<in>mapGroups (group_removeLayer n l s).
      x \<in> set (mapLayers (group_removeLayer n l s) m)"
    by blast
qed

lemma fresh_group_removeLayer: "refs_fresh s \<Longrightarrow> refs_fresh (group_removeLayer n l s)"
  unfolding refs_fresh_def by auto

lemma held_group_removeLayer:
  assumes "selection_held s"
  shows "selection_held ((group_removeLayer n l s)\<lparr>deletedLayers := deletedLayers s @ [l]\<rparr>)"
  unfolding selection_held_iff
proof (intro allI impI)
  fix sel
  assume "selectedFeature ((group_removeLayer n l s)\<lparr>deletedLayers := deletedLayers s @ [l]\<rparr>)
      = Some sel"
  then have sel: "selectedFeature s = Some sel"
    by simp
  show "(\<exists>m. sel_layer sel
          \<in> set (mapLayers ((group_removeLayer n l s)\<lparr>deletedLayers := deletedLayers s @ [l]\<rparr>) m))
      \<or> sel_layer sel
          \<in> set (deletedLayers ((group_removeLayer n l s)\<lparr>deletedLayers := deletedLayers s @ [l]\<rparr>))"
  proof (cases "sel_layer sel = l")
    case True
    then show ?thesis by simp
  next
    case False
    from assms sel consider m where "sel_layer sel \<in> set (mapLayers s m)"
      | "sel_layer sel \<in> set (deletedLayers s)"
      by (auto simp add: selection_held_iff)
    then show ?thesis
    proof cases
      case 1
      with False have "sel_layer sel \<in> set (mapLayers (group_removeLayer n l s) m)"
        by auto
      then show ?thesis
        by (intro disjI1 exI [of _ m]) simp
    next
      case 2
      then show ?thesis by simp
    qed
  qed
qed

lemma inv_removed:
  assumes "controller_inv s"
  shows "controller_inv (toolkit_remove l s)"
proof (cases "l \<in> set (drawnItems s)")
  case False
  with assms show ?thesis
    by (simp add: toolkit_remove_def)
next
  case True
  let ?t = "(group_removeLayer Drawn l s)\<lparr>deletedLayers := deletedLayers s @ [l]\<rparr>"
  have held: "selection_held ?t"
    using assms by (simp add: controller_inv_def held_group_removeLayer)
  have "shown_in_group (group_removeLayer Drawn l s)"
    using assms by (simp add: controller_inv_def shown_group_removeLayer)
  then have shown: "shown_in_group ?t"
    by (simp add: shown_in_group_def)
  have "l < next_ref s"
    using assms True by (auto simp add: controller_inv_def refs_fresh_def drawnItems_def)
  moreover have "refs_fresh (group_removeLayer Drawn l s)"
    using assms by (simp add: controller_inv_def fresh_group_removeLayer)
  ultimately have fresh: "refs_fresh ?t"
    by (auto simp add: refs_fresh_def)
  from held shown fresh True show ?thesis
    by (simp add: controller_inv_def toolkit_remove_def)
qed

lemma inv_deleted:
  assumes "controller_inv s"
  shows "controller_inv (toolkit_save s)"
  using assms
  unfolding controller_inv_def selection_held_iff shown_in_group_def refs_fresh_def
    toolkit_save_def handleDrawDeleted_def
  by simp

lemma group_addLayer_grows:
  "x \<in> set (mapLayers s m) \<Longrightarrow> x \<in> set (mapLayers (group_addLayer n l s) m)"
  by auto

lemma readd_keeps:
  assumes "shown_in_group s" and "\<forall>m. \<forall>x \<in> set (mapLayers s m). x < k" and "l < k"
  shows "shown_in_group (group_addLayer Drawn l s)
    \<and> (\<forall>m. \<forall>x \<in> set (mapLayers (group_addLayer Drawn l s) m). x < k)"
proof
  show "shown_in_group (group_addLayer Drawn l s)"
    unfolding shown_in_group_def
  proof
    fix x
    assume "x \<in> mapShapes (group_addLayer Drawn l s)"
    then consider "x = l" "Drawn \<in> mapGroups s" | "x \<in> mapShapes s"
      by (auto split: if_splits)
    then show "\<exists>m\<in>mapGroups (group_addLayer Drawn l s).
        x \<in> set (mapLayers (group_addLayer Drawn l s) m)"
    proof cases
      case 1
      then have "x \<in> set (mapLayers (group_addLayer Drawn l s) Drawn)"
        by simp
      with 1 show ?thesis
        by (intro bexI [of _ Drawn]) simp_all
    next
      case 2
      with assms(1) obtain m where "m \<in> mapGroups s" "x \<in> set (mapLayers s m)"
        by (auto simp add: shown_in_group_def)
      then show ?thesis
        by (intro bexI [of _ m]) (simp_all add: group_addLayer_grows del: group_addLayer_changes)
    qed
  qed
  show "\<forall>m. \<forall>x \<in> set (mapLayers (group_addLayer Drawn l s) m). x < k"
    using assms(2,3) by (auto split: if_splits)
qed

lemma readd_all:
  assumes "shown_in_group s" and "\<forall>m. \<forall>x \<in> set (mapLayers s m). x < k"
    and "\<forall>l \<in> set ls. l < k"
  shows "shown_in_group (fold (group_addLayer Drawn) ls s)
    \<and> (\<forall>m. \<forall>x \<in> set (mapLayers (fold (group_addLayer Drawn) ls s) m). x < k)
    \<and> (\<forall>m x. x \<in> set (mapLayers s m) \<longrightarrow>
          x \<in> set (mapLayers (fold (group_addLayer Drawn) ls s) m))
    \<and> (\<forall>l \<in> set ls. l \<in> set (mapLayers (fold (group_addLayer Drawn) ls s) Drawn))"
  using assms
proof (induction ls arbitrary: s)
  case Nil
  then show ?case by simp
next
  case (Cons a ls)
  have step: "shown_in_group (group_addLayer Drawn a s)
      \<and> (\<forall>m. \<forall>x \<in> set (mapLayers (group_addLayer Drawn a s) m). x < k)"
    using Cons.prems by (intro readd_keeps) simp_all
  have rest: "\<forall>l \<in> set ls. l < k"
    using Cons.prems by simp
  note ih = Cons.IH [OF conjunct1 [OF step] conjunct2 [OF step] rest]
  have a: "a \<in> set (mapLayers (group_addLayer Drawn a s) Drawn)"
    by simp
  have grows: "x \<in> set (mapLayers (fold (group_addLayer Drawn) ls (group_addLayer Drawn a s)) m)"
    if "x \<in> set (mapLayers s m)" for x m
    using ih group_addLayer_grows [OF that, of Drawn a] by blast
  from ih a grows show ?case
    by (auto simp del: group_addLayer_changes)
qed

lemma fold_group_addLayer_frame [simp]:
  "selectedFeature (fold (group_addLayer n) ls s) = selectedFeature s"
  "mapGroups (fold (group_addLayer n) ls s) = mapGroups s"
  "shapes (fold (group_addLayer n) ls s) = shapes s"
  "features (fold (group_addLayer n) ls s) = features s"
  "next_ref (fold (group_addLayer n) ls s) = next_ref s"
  "deletedLayers (fold (group_addLayer n) ls s) = deletedLayers s"
  by (induction ls arbitrary: s; simp)+

lemma inv_reverted:
  assumes "controller_inv s"
  shows "controller_inv (toolkit_revert s)"
proof -
  let ?t = "fold (group_addLayer Drawn) (deletedLayers s) s"
  from assms have pre: "shown_in_group s" "\<forall>m. \<forall>x \<in> set (mapLayers s m). x < next_ref s"
    "\<forall>l \<in> set (deletedLayers s). l < next_ref s"
    by (simp_all add: controller_inv_def refs_fresh_def)
  note all = readd_all [OF pre]
  have held: "selection_held (toolkit_revert s)"
    unfolding selection_held_iff
  proof (intro allI impI)
    fix sel
    assume "selectedFeature (toolkit_revert s) = Some sel"
    then have "selectedFeature s = Some sel"
      by (simp add: toolkit_revert_def)
    with assms consider m where "sel_layer sel \<in> set (mapLayers s m)"
      | "sel_layer sel \<in> set (deletedLayers s)"
      by (auto simp add: controller_inv_def selection_held_iff)
    then have "\<exists>m. sel_layer sel \<in> set (mapLayers ?t m)"
      using all by cases blast+
    then show "(\<exists>m. sel_layer sel \<in> set (mapLayers (toolkit_revert s) m))
        \<or> sel_layer sel \<in> set (deletedLayers (toolkit_revert s))"
      by (simp add: toolkit_revert_def)
  qed
  have shown: "shown_in_group (toolkit_revert s)"
    using all by (simp add: shown_in_group_def toolkit_revert_def)
  have fresh: "refs_fresh (toolkit_revert s)"
    using all assms by (simp add: refs_fresh_def controller_inv_def toolkit_revert_def)
  from held shown fresh show ?thesis
    by (simp add: controller_inv_def)
qed

lemma inv_reshaped: "controller_inv s \<Longrightarrow> controller_inv (reshape l g s)"
  by (simp add: controller_inv_cong [of "reshape l g s" s])

lemma inv_edited_event: "controller_inv s \<Longrightarrow> controller_inv (handleDrawEdited e s)"
  by (simp add: controller_inv_cong [of "handleDrawEdited e s" s])

lemma inv_rendered: "controller_inv s \<Longrightarrow> controller_inv (s\<lparr>attributeEditor := ed\<rparr>)"
  by (simp add: controller_inv_cong [of "s\<lparr>attributeEditor := ed\<rparr>" s])

lemma inv_typed: "controller_inv s \<Longrightarrow> controller_inv (setInputValue i v s)"
  by (simp add: controller_inv_cong [of "setInputValue i v s" s])

lemma saveAttributes_features:
  "features (saveAttributes s) f = None \<longleftrightarrow> features s f = None"
  by (simp add: saveAttributes_def Let_def split: option.splits)

lemma inv_saved:
  assumes "controller_inv s"
  shows "controller_inv (saveAttributes s)"
proof -
  have "refs_fresh (saveAttributes s)"
    unfolding refs_fresh_def
  proof (intro conjI allI ballI impI)
    fix n l
    assume "l \<in> set (mapLayers (saveAttributes s) n)"
    with assms show "l < next_ref (saveAttributes s)"
      by (simp add: controller_inv_def refs_fresh_def)
  next
    fix f
    assume "features (saveAttributes s) f \<noteq> None"
    then have "features s f \<noteq> None"
      by (simp add: saveAttributes_features)
    with assms show "f < next_ref (saveAttributes s)"
      by (simp add: controller_inv_def refs_fresh_def)
  next
    fix l
    assume "l \<in> set (deletedLayers (saveAttributes s))"
    with assms show "l < next_ref (saveAttributes s)"
      by (simp add: controller_inv_def refs_fresh_def)
  qed
  with assms show ?thesis
    by (simp add: controller_inv_def selection_held_iff shown_in_group_def)
qed

lemma shown_map_addGroup: "shown_in_group s \<Longrightarrow> shown_in_group (map_addGroup n s)"
  unfolding shown_in_group_def by (simp split: if_splits) blast

lemma shown_map_removeGroup:
  assumes "shown_in_group s"
  shows "shown_in_group (map_removeGroup n s)"
  unfolding shown_in_group_def
proof
  fix x
  assume x: "x \<in> mapShapes (map_removeGroup n s)"
  then have "x \<in> mapShapes s"
    by (simp split: if_splits)
  with assms obtain m where m: "m \<in> mapGroups s" "x \<in> set (mapLayers s m)"
    by (auto simp add: shown_in_group_def)
  with x have "m \<noteq> n"
    by (auto split: if_splits)
  with m show "\<exists>m\<in>mapGroups (map_removeGroup n s). x \<in> set (mapLayers (map_removeGroup n s) m)"
    by auto
qed

lemma inv_toggled:
  assumes "controller_inv s"
  shows "controller_inv (toggleLayer n v s)"
proof -
  have "shown_in_group (toggleLayer n v s)"
  proof (cases v)
    case True
    have "shown_in_group (toggleLayer n True s) = shown_in_group (map_addGroup n s)"
      by (simp add: shown_in_group_def toggleLayer_def)
    with assms True show ?thesis
      by (simp add: controller_inv_def shown_map_addGroup)
  next
    case False
    have "shown_in_group (toggleLayer n False s) = shown_in_group (map_removeGroup n s)"
      by (simp add: toggleLayer_def)
    with assms False show ?thesis
      by (simp add: controller_inv_def shown_map_removeGroup)
  qed
  with assms show ?thesis
    by (simp add: controller_inv_def selection_held_iff refs_fresh_def)
qed

lemma reachable_inv: "reachable s \<Longrightarrow> controller_inv s"
proof (induction rule: reachable.induct)
  case (constructed p)
  show ?case by (rule inv_init)
next
  case (fetched s n res)
  then show ?case by (simp add: inv_load)
next
  case (clicked s l sh f n)
  then show ?case by (simp add: inv_select)
next
  case (background s)
  then show ?case by (simp add: inv_deselect)
next
  case (tool s t answer)
  then show ?case by (simp add: inv_tool)
next
  case (drawn s e now)
  then show ?case by (simp add: inv_drawn)
next
  case (reshaped s l g)
  then show ?case by (simp add: inv_reshaped)
next
  case (edited s e)
  then show ?case by (simp add: inv_edited_event)
next
  case (removed s l)
  then show ?case by (simp add: inv_removed)
next
  case (deleted s)
  then show ?case by (simp add: inv_deleted)
next
  case (reverted s)
  then show ?case by (simp add: inv_reverted)
next
  case (typed s i v)
  then show ?case by (simp add: inv_typed)
next
  case (rendered s sel props fm)
  then show ?case by (simp add: inv_rendered)
next
  case (saved s)
  then show ?case by (simp add: inv_saved)
next
  case (deleting s answer)
  then show ?case by (simp add: inv_delete)
next
  case (toggled s n visible)
  then show ?case by (simp add: inv_toggled)
qed

lemma loadGeoJSONLayer_frame [simp]:
  "selectedFeature (loadGeoJSONLayer n res s) = selectedFeature s"
  "mapGroups (loadGeoJSONLayer n res s) = mapGroups s"
  "currentLayer (loadGeoJSONLayer n res s) = currentLayer s"
  "currentTool (loadGeoJSONLayer n res s) = currentTool s"
  "attributeEditor (loadGeoJSONLayer n res s) = attributeEditor s"
  by (cases res;
      simp add: loadGeoJSONLayer_def createSampleData_def addGeoJSONToMap_def
        fold_preserves [where P = "\<lambda>t. selectedFeature t = selectedFeature s \<and> mapGroups t = mapGroups s
          \<and> currentLayer t = currentLayer s \<and> currentTool t = currentTool s
          \<and> attributeEditor t = attributeEditor s"])+

lemma createSampleData_other: "n \<noteq> Households \<Longrightarrow> createSampleData n s = s"
  by (simp add: createSampleData_def)

lemma createSampleData_households:
  assumes "mapLayers s Households = []"
  shows "mapLayers (createSampleData Households s) =
      (mapLayers s)(Households := [next_ref s, Suc (next_ref s), Suc (Suc (next_ref s))])"
    and "features (createSampleData Households s) =
      (features s)(next_ref s \<mapsto> sample_feature (sampleHouseholds ! 0),
        Suc (next_ref s) \<mapsto> sample_feature (sampleHouseholds ! 1),
        Suc (Suc (next_ref s)) \<mapsto> sample_feature (sampleHouseholds ! 2))"
    and "next_ref (createSampleData Households s) = Suc (Suc (Suc (next_ref s)))"
    and "mapShapes (createSampleData Households s) =
      (if Households \<in> mapGroups s
       then mapShapes s \<union> {next_ref s, Suc (next_ref s), Suc (Suc (next_ref s))}
       else mapShapes s)"
  using assms
  by (auto simp add: createSampleData_def sampleHouseholds_def addSample_changes)

lemma createSampleData_frame [simp]:
  "selectedFeature (createSampleData n s) = selectedFeature s"
  "mapGroups (createSampleData n s) = mapGroups s"
  "currentLayer (createSampleData n s) = currentLayer s"
  "currentTool (createSampleData n s) = currentTool s"
  "attributeEditor (createSampleData n s) = attributeEditor s"
  by (simp_all add: createSampleData_def sampleHouseholds_def)

lemma createSampleData_shapes:
  "shapes (createSampleData Households s) =
      (shapes s)(next_ref s \<mapsto>
          (sample_marker Households (sampleHouseholds ! 0))
            \<lparr>popup := Some (createPopupContent (sample_feature (sampleHouseholds ! 0)) Households),
             onClick := Some (next_ref s, Households)\<rparr>,
        Suc (next_ref s) \<mapsto>
          (sample_marker Households (sampleHouseholds ! 1))
            \<lparr>popup := Some (createPopupContent (sample_feature (sampleHouseholds ! 1)) Households),
             onClick := Some (Suc (next_ref s), Households)\<rparr>,
        Suc (Suc (next_ref s)) \<mapsto>
          (sample_marker Households (sampleHouseholds ! 2))
            \<lparr>popup := Some (createPopupContent (sample_feature (sampleHouseholds ! 2)) Households),
             onClick := Some (Suc (Suc (next_ref s)), Households)\<rparr>)"
  by (simp add: createSampleData_def sampleHouseholds_def addSample_changes)

lemma sample_state_fields:
  "selectedFeature sample_state = None"
  "mapLayers sample_state = (\<lambda>n. [])(Households := [0, 1, 2])"
  "mapShapes sample_state = {0, 1, 2}"
  "mapGroups sample_state = {Households, Facilities, Roads, Boundary, Drawn}"
  "next_ref sample_state = 3"
  "attributeEditor sample_state = None"
  "currentLayer sample_state = Households"
  "features sample_state 0 = Some (sample_feature (sampleHouseholds ! 0))"
  "shapes sample_state 0 =
     Some ((sample_marker Households (sampleHouseholds ! 0))
            \<lparr>popup := Some (createPopupContent (sample_feature (sampleHouseholds ! 0)) Households),
             onClick := Some (0, Households)\<rparr>)"
  "shapes sample_state (Suc 0) =
     Some ((sample_marker Households (sampleHouseholds ! 1))
            \<lparr>popup := Some (createPopupContent (sample_feature (sampleHouseholds ! 1)) Households),
             onClick := Some (1, Households)\<rparr>)"
  by (simp_all add: sample_state_def loadGeoJSONLayer_def createSampleData_households
      createSampleData_shapes init_def blank_page_def showNotification_def insert_commute
      eval_nat_numeral)

lemma juan_selected_fields:
  "selectedFeature juan_selected =
     Some \<lparr>sel_feature = 0, sel_layer = 0, sel_layerName = Households\<rparr>"
  "mapLayers juan_selected = (\<lambda>n. [])(Households := [0, 1, 2])"
  "mapShapes juan_selected = {0, 1, 2}"
  "mapGroups juan_selected = {Households, Facilities, Roads, Boundary, Drawn}"
  "next_ref juan_selected = 3"
  "features juan_selected 0 = Some (sample_feature (sampleHouseholds ! 0))"
  by (simp_all add: juan_selected_def sample_state_fields)

subsection \<open>Saving the form\<close>

lemma fold_update_other:
  "k \<notin> field_key ` set inputs \<Longrightarrow>
     fold (\<lambda>inp m. m(field_key inp \<mapsto> JStr (input_value inp))) inputs m k = m k"
  by (induction inputs arbitrary: m) simp_all

lemma updatedProperties_other:
  "k \<notin> field_key ` set inputs \<Longrightarrow> updatedProperties inputs k = None"
  by (simp add: updatedProperties_def fold_update_other)

lemma saveAttributes_features_eq:
  assumes "selectedFeature s = Some sel" and "features s (sel_feature sel) = Some ft"
  shows "features (saveAttributes s) =
     (features s)(sel_feature sel \<mapsto>
        ft\<lparr>properties :=
             Some ((case properties ft of None \<Rightarrow> Map.empty | Some p \<Rightarrow> p)
                   ++ updatedProperties
                        (case attributeEditor s of None \<Rightarrow> [] | Some fm \<Rightarrow> form_inputs fm))\<rparr>)"
  using assms by (simp add: saveAttributes_def Let_def)

lemma saveAttributes_popup:
  assumes "selectedFeature s = Some sel" and "features s (sel_feature sel) = Some ft"
    and "shapes s (sel_layer sel) = Some sh" and "popup sh \<noteq> None"
  shows "popup_of (saveAttributes s) (sel_layer sel) =
     createPopupContent
       (ft\<lparr>properties :=
             Some ((case properties ft of None \<Rightarrow> Map.empty | Some p \<Rightarrow> p)
                   ++ updatedProperties
                        (case attributeEditor s of None \<Rightarrow> [] | Some fm \<Rightarrow> form_inputs fm))\<rparr>)
       (sel_layerName sel)"
  using assms
  by (auto simp add: saveAttributes_def Let_def popup_of_def setPopupContent_def
      showNotification_def)

lemma form_keys_setInputValue [simp]: "form_keys (setInputValue i v s) = form_keys s"
  by (simp add: form_keys_def setInputValue_def field_key_def comp_def split: option.splits)

lemma generated_form_keys:
  "set (map field_key (form_inputs (createAttributeForm q n b)))
     \<subseteq> {''id'', ''owner'', ''family'', ''residents'', ''facility'', ''name''}"
  by (simp add: createAttributeForm_def field_key_def)

lemma juan_selected_editor:
  "attributeEditor juan_selected =
     Some \<lparr>form_title = ''Households #101'',
           form_inputs =
             [\<lparr>input_id = ''attr-id'', input_type = ''text'', input_value = ''101'',
                input_readonly = True\<rparr>,
              \<lparr>input_id = ''attr-owner'', input_type = ''text'', input_value = ''Juan Cruz'',
                input_readonly = False\<rparr>,
              \<lparr>input_id = ''attr-family'', input_type = ''text'', input_value = ''Cruz Family'',
                input_readonly = False\<rparr>,
              \<lparr>input_id = ''attr-residents'', input_type = ''number'', input_value = ''4'',
                input_readonly = False\<rparr>],
           save_label = ''Save Changes''\<rparr>"
  by (simp add: juan_selected_def selectFeature_def showSelected_def feature_properties_def
      sample_state_fields showAttributeEditor_def createAttributeForm_def sampleHouseholds_def
      sample_feature_def por_def show_int_def show_nat.simps capitalize_def to_upper_def
      number_value_def valid_number_def valid_exponent_def is_digit_def)

lemma owner_typed_fields:
  "selectedFeature owner_typed =
     Some \<lparr>sel_feature = 0, sel_layer = 0, sel_layerName = Households\<rparr>"
  "features owner_typed 0 = Some (sample_feature (sampleHouseholds ! 0))"
  "attributeEditor owner_typed =
     Some \<lparr>form_title = ''Households #101'',
           form_inputs =
             [\<lparr>input_id = ''attr-id'', input_type = ''text'', input_value = ''101'',
                input_readonly = True\<rparr>,
              \<lparr>input_id = ''attr-owner'', input_type = ''text'', input_value = ''X'',
                input_readonly = False\<rparr>,
              \<lparr>input_id = ''attr-family'', input_type = ''text'', input_value = ''Cruz Family'',
                input_readonly = False\<rparr>,
              \<lparr>input_id = ''attr-residents'', input_type = ''number'', input_value = ''4'',
                input_readonly = False\<rparr>],
           save_label = ''Save Changes''\<rparr>"
  by (simp_all add: owner_typed_def juan_selected_fields juan_selected_editor setInputValue_def
      typed_value_def text_value_def)

lemma owner_typed_keys: "form_keys owner_typed = [''id'', ''owner'', ''family'', ''residents'']"
  by (simp add: form_keys_def owner_typed_fields field_key_def)

lemma census_selected_fields:
  "selectedFeature census_selected =
     Some \<lparr>sel_feature = 0, sel_layer = 0, sel_layerName = Households\<rparr>"
  "features census_selected 0 = Some census_feature"
  by (simp_all add: census_selected_def loadGeoJSONLayer_def addGeoJSONToMap_def
      onEachFeature_changes init_def)

lemma census_selected_keys:
  "form_keys census_selected = [''id'', ''owner'', ''family'', ''residents'']"
  by (simp add: form_keys_def census_selected_def selectFeature_def showSelected_def
      feature_properties_def loadGeoJSONLayer_def addGeoJSONToMap_def onEachFeature_changes
      init_def census_feature_def showAttributeEditor_def createAttributeForm_def field_key_def)

lemma reachable_sample_state: "reachable sample_state"
  unfolding sample_state_def
  by (rule reachable.fetched [OF reachable.constructed]) simp

lemma reachable_juan_selected: "reachable juan_selected"
  unfolding juan_selected_def
  by (rule reachable.clicked [OF reachable_sample_state, where sh =
        "(sample_marker Households (sampleHouseholds ! 0))
            \<lparr>popup := Some (createPopupContent (sample_feature (sampleHouseholds ! 0)) Households),
             onClick := Some (0, Households)\<rparr>"])
    (simp_all add: sample_state_fields)

lemma reachable_owner_typed: "reachable owner_typed"
  unfolding owner_typed_def by (rule reachable.typed [OF reachable_juan_selected])

lemma juan_selected_shape:
  "shapes juan_selected 0 =
     Some \<lparr>kind = CircleMarker,
           pathOptions = Some \<lparr>radius = Some 8, fillColor = Some ''#3388ff'', color = ''#ff0000'',
                                weight = 4, opacity = None, fillOpacity = Some (8 / 10)\<rparr>,
           editable = False,
           popup = Some (createPopupContent (sample_feature (sampleHouseholds ! 0)) Households),
           onClick = Some (0, Households),
           shapeGeometry = Point (1253180 / 10000) (122390 / 10000)\<rparr>"
  by (simp add: juan_selected_def selectFeature_def highlight_def has_setStyle_def
      storeSelection_def restoreSelectedStyle_def sample_state_fields setStyle_def
      sample_marker_def sampleHouseholds_def)

subsection \<open>Styles\<close>

lemma setStyle_core [simp]:
  "map_option shape_core (shapes (setStyle l w c s) x) = map_option shape_core (shapes s x)"
  by (simp add: setStyle_def shape_core_def split: option.splits)

lemma restoreSelectedStyle_core [simp]:
  "map_option shape_core (shapes (restoreSelectedStyle s) x) = map_option shape_core (shapes s x)"
  by (simp add: restoreSelectedStyle_def split: option.splits)

lemma highlight_core [simp]:
  "map_option shape_core (shapes (highlight l s) x) = map_option shape_core (shapes s x)"
  by (simp add: highlight_def)

lemma selectFeature_core [simp]:
  "map_option shape_core (shapes (selectFeature f l n b s) x) = map_option shape_core (shapes s x)"
  by (simp add: selectFeature_def showSelected_def storeSelection_def split: option.splits)

lemma has_setStyle_setStyle [simp]: "has_setStyle x (setStyle l w c s) = has_setStyle x s"
  by (simp add: has_setStyle_def setStyle_def split: option.splits)

lemma has_setStyle_restore [simp]: "has_setStyle x (restoreSelectedStyle s) = has_setStyle x s"
  by (simp add: restoreSelectedStyle_def split: option.splits)

lemma has_setStyle_store [simp]: "has_setStyle x (storeSelection f l n s) = has_setStyle x s"
  by (simp add: has_setStyle_def storeSelection_def)

lemma has_setStyle_highlight [simp]: "has_setStyle x (highlight l s) = has_setStyle x s"
  by (simp add: highlight_def)

lemma has_setStyle_showSelected [simp]: "has_setStyle x (showSelected f n b s) = has_setStyle x s"
  by (simp add: has_setStyle_def)

lemma has_setStyle_selectFeature [simp]:
  "has_setStyle x (selectFeature f l n b s) = has_setStyle x s"
  by (simp add: selectFeature_def)

lemma highlighted_setStyle:
  "highlighted (setStyle l w c s) x =
     (if x = l \<and> has_setStyle l s then w = 4 \<and> c = ''#ff0000'' else highlighted s x)"
  by (auto simp add: highlighted_def setStyle_def has_setStyle_def highlight_options_def
      split: option.splits)

lemma highlighted_has_setStyle: "highlighted s x \<Longrightarrow> has_setStyle x s"
  by (auto simp add: highlighted_def has_setStyle_def highlight_options_def split: option.splits)

lemma highlighted_restore:
  assumes "only_selection_highlighted s"
  shows "\<not> highlighted (restoreSelectedStyle s) x"
proof (cases "selectedFeature s")
  case None
  with assms show ?thesis
    by (auto simp add: only_selection_highlighted_def restoreSelectedStyle_def)
next
  case (Some sel)
  show ?thesis
  proof (cases "has_setStyle (sel_layer sel) s")
    case True
    with Some assms show ?thesis
      by (auto simp add: only_selection_highlighted_def restoreSelectedStyle_def
          highlighted_setStyle)
  next
    case False
    with Some assms show ?thesis
      by (auto simp add: only_selection_highlighted_def restoreSelectedStyle_def
          dest: highlighted_has_setStyle)
  qed
qed

lemma highlighted_store [simp]: "highlighted (storeSelection f l n s) x = highlighted s x"
  by (simp add: highlighted_def storeSelection_def)

lemma highlighted_showSelected [simp]: "highlighted (showSelected f n b s) x = highlighted s x"
  by (simp add: highlighted_def)

lemma highlighted_highlight:
  "highlighted (highlight l s) x = (if x = l \<and> has_setStyle l s then True else highlighted s x)"
  by (simp add: highlight_def highlighted_setStyle)

lemma highlighted_selectFeature:
  assumes "only_selection_highlighted s"
  shows "highlighted (selectFeature f l n b s) x \<longleftrightarrow> x = l \<and> has_setStyle l s"
  using highlighted_restore [OF assms]
  by (simp add: selectFeature_def highlighted_highlight)

lemma only_selection_highlighted_select:
  "only_selection_highlighted s \<Longrightarrow> only_selection_highlighted (selectFeature f l n b s)"
  by (simp add: only_selection_highlighted_def [of "selectFeature f l n b s"]
      highlighted_selectFeature)

lemma at_most_one_if_only_selection:
  "only_selection_highlighted s \<Longrightarrow> at_most_one_highlighted s"
  by (auto simp add: only_selection_highlighted_def at_most_one_highlighted_def
      split: option.splits)

lemma at_most_one_if_none: "(\<And>x. \<not> highlighted s x) \<Longrightarrow> at_most_one_highlighted s"
  by (simp add: at_most_one_highlighted_def)

lemma trace_at_most_one:
  assumes "only_selection_highlighted s" and "t \<in> set (selectFeature_trace f l n b s)"
  shows "at_most_one_highlighted t"
proof -
  note none = highlighted_restore [OF assms(1)]
  from assms(2) consider "t = s" | "t = restoreSelectedStyle s"
    | "t = storeSelection f l n (restoreSelectedStyle s)"
    | "t = highlight l (storeSelection f l n (restoreSelectedStyle s))"
    | "t = selectFeature f l n b s"
    by (auto simp add: selectFeature_trace_def Let_def selectFeature_def)
  then show ?thesis
  proof cases
    case 1
    with assms(1) show ?thesis by (simp add: at_most_one_if_only_selection)
  next
    case 2
    with none show ?thesis by (simp add: at_most_one_if_none)
  next
    case 3
    with none show ?thesis by (simp add: at_most_one_if_none)
  next
    case 4
    with none show ?thesis
      by (simp add: at_most_one_highlighted_def highlighted_highlight)
  next
    case 5
    with assms(1) show ?thesis
      by (simp add: at_most_one_if_only_selection only_selection_highlighted_select)
  qed
qed

lemma selectFeature_trace_last:
  "last (selectFeature_trace f l n b s) = selectFeature f l n b s"
  by (simp add: selectFeature_trace_def Let_def selectFeature_def)

lemma normal_style_restore:
  assumes "selectedFeature s = Some sel" and "has_setStyle (sel_layer sel) s"
  shows "normal_style (sel_layerName sel) (restoreSelectedStyle s) (sel_layer sel)"
  using assms
  by (auto simp add: normal_style_def restoreSelectedStyle_def setStyle_def has_setStyle_def
      split: option.splits)

lemma normal_style_setStyle_other:
  "x \<noteq> l \<Longrightarrow> normal_style n (setStyle l w c s) x = normal_style n s x"
  by (simp add: normal_style_def setStyle_def split: option.splits)

lemma normal_style_highlight_other:
  "x \<noteq> l \<Longrightarrow> normal_style n (highlight l s) x = normal_style n s x"
  by (simp add: highlight_def normal_style_setStyle_other)

lemma normal_style_store [simp]:
  "normal_style n (storeSelection f l m s) x = normal_style n s x"
  by (simp add: normal_style_def storeSelection_def)

lemma normal_style_showSelected [simp]:
  "normal_style n (showSelected f m b s) x = normal_style n s x"
  by (simp add: normal_style_def)

subsection \<open>Only the selected shape is highlighted\<close>

lemma highlighted_cong: "shapes t = shapes s \<Longrightarrow> highlighted t x = highlighted s x"
  by (simp add: highlighted_def)

lemma only_selection_highlighted_cong:
  "shapes t = shapes s \<Longrightarrow> selectedFeature t = selectedFeature s \<Longrightarrow>
     only_selection_highlighted t = only_selection_highlighted s"
  by (simp add: only_selection_highlighted_def highlighted_def)

lemma only_selection_highlighted_none:
  "(\<And>x. \<not> highlighted s x) \<Longrightarrow> only_selection_highlighted s"
  by (simp add: only_selection_highlighted_def)

lemma hl_init: "only_selection_highlighted (init p)"
  by (simp add: only_selection_highlighted_def highlighted_def init_def)

lemma hl_new_shape:
  assumes "only_selection_highlighted s"
    and "shapes t = (shapes s)(l \<mapsto> sh)" and "\<not> highlight_options (pathOptions sh)"
    and "selectedFeature t = selectedFeature s"
  shows "only_selection_highlighted t"
  using assms by (simp add: only_selection_highlighted_def highlighted_def)

lemma hl_addSample:
  "only_selection_highlighted s \<Longrightarrow> only_selection_highlighted (addSample n h s)"
  by (rule hl_new_shape [where l = "next_ref s" and sh = "(sample_marker n h)
        \<lparr>popup := Some (createPopupContent (sample_feature h) n),
         onClick := Some (next_ref s, n)\<rparr>"])
    (simp_all add: addSample_changes sample_marker_def highlight_options_def)

lemma hl_onEachFeature:
  "only_selection_highlighted s \<Longrightarrow> only_selection_highlighted (onEachFeature n f s)"
  by (rule hl_new_shape [where l = "next_ref s" and sh = "(geometryToLayer n (geometry f))
        \<lparr>editable := True, popup := Some (createPopupContent f n),
         onClick := Some (next_ref s, n)\<rparr>"])
    (simp_all add: onEachFeature_changes geometryToLayer_def style_def highlight_options_def
      split: geometry.splits)

lemma hl_showNotification [simp]:
  "only_selection_highlighted (showNotification m ty s) = only_selection_highlighted s"
  by (rule only_selection_highlighted_cong) simp_all

lemma hl_load:
  "only_selection_highlighted s \<Longrightarrow> only_selection_highlighted (loadGeoJSONLayer n res s)"
  by (cases res)
    (simp_all add: loadGeoJSONLayer_def createSampleData_def addGeoJSONToMap_def
      fold_preserves hl_addSample hl_onEachFeature)

lemma hl_deselect:
  "only_selection_highlighted s \<Longrightarrow> only_selection_highlighted (deselectFeature s)"
proof (rule only_selection_highlighted_none)
  fix x
  assume "only_selection_highlighted s"
  then have "\<not> highlighted (restoreSelectedStyle s) x"
    by (rule highlighted_restore)
  then show "\<not> highlighted (deselectFeature s) x"
    by (simp add: highlighted_def deselectFeature_def)
qed

lemma hl_delete:
  assumes "only_selection_highlighted s"
  shows "only_selection_highlighted (deleteSelectedFeature a s)"
proof (cases "selectedFeature s")
  case None
  then have "deleteSelectedFeature a s = s"
    by (simp add: deleteSelectedFeature_def)
  with assms show ?thesis
    by simp
next
  case (Some sel)
  show ?thesis
  proof (cases a)
    case False
    then have "deleteSelectedFeature a s = s"
      by (simp add: deleteSelectedFeature_def Some)
    with assms show ?thesis
      by simp
  next
    case True
    define s1 where "s1 = (if map_hasLayer (sel_layer sel) s
      then map_removeLayer (sel_layer sel) s else s)"
    define s2 where "s2 = (if group_hasLayer (sel_layerName sel) (sel_layer sel) s1
      then group_removeLayer (sel_layerName sel) (sel_layer sel) s1 else s1)"
    define s3 where "s3 = (if group_hasLayer Drawn (sel_layer sel) s2
      then group_removeLayer Drawn (sel_layer sel) s2 else s2)"
    have same: "shapes s3 = shapes s" "selectedFeature s3 = selectedFeature s"
      by (simp_all add: s3_def s2_def s1_def)
    have "deleteSelectedFeature a s
        = showNotification (check_mark @ '' Feature deleted successfully!'') ''success''
            (deselectFeature s3)"
      by (simp add: deleteSelectedFeature_def Some True Let_def s3_def s2_def s1_def)
    moreover have "only_selection_highlighted s3"
      using assms same by (simp add: only_selection_highlighted_cong [of s3 s])
    ultimately show ?thesis
      by (simp add: hl_deselect)
  qed
qed

lemma enableTool_other_shapes:
  "t \<noteq> ''delete'' \<Longrightarrow> shapes (enableTool t a s) = shapes s"
  by (simp add: enableTool_def Let_def)

lemma hl_enableTool:
  assumes "only_selection_highlighted s"
  shows "only_selection_highlighted (enableTool t a s)"
proof (cases "t = ''delete''")
  case True
  have "only_selection_highlighted ((hideDrawToolbar s)\<lparr>isDrawing := False\<rparr>)"
    using assms
    by (simp add: only_selection_highlighted_cong [of "(hideDrawToolbar s)\<lparr>isDrawing := False\<rparr>" s])
  then show ?thesis
    unfolding True enableTool_delete Let_def by (simp add: hl_delete)
next
  case False
  have "only_selection_highlighted (enableTool t a s) = only_selection_highlighted s"
    by (rule only_selection_highlighted_cong)
      (simp_all add: enableTool_other enableTool_other_shapes False)
  with assms show ?thesis
    by simp
qed

lemma hl_tool:
  assumes "only_selection_highlighted s"
  shows "only_selection_highlighted (setActiveTool t a s)"
  unfolding setActiveTool_def
proof (rule hl_enableTool)
  let ?u = "s\<lparr>currentTool := t, activeToolButton := t, currentToolText := capitalize t,
    mapBanner := ''Using: <strong>'' @ capitalize t @ ''</strong> Tool on <strong>''
                       @ layer_str (currentLayer s) @ ''</strong> Layer''\<rparr>"
  have "only_selection_highlighted ?u = only_selection_highlighted s"
    by (rule only_selection_highlighted_cong) simp_all
  with assms show "only_selection_highlighted ?u"
    by simp
qed

lemma hl_drawn:
  assumes "only_selection_highlighted s" and "\<not> highlight_options (ev_options e)"
  shows "only_selection_highlighted (handleDrawCreated e now s)"
proof -
  let ?l = "next_ref s"
  let ?f = "\<lparr>properties = Some (getDefaultProperties now (currentLayer s)),
              geometry = ev_geometry e\<rparr>"
  let ?s4 = "bindPopup ?l (createPopupContent ?f Drawn)
      (on_click ?l ?l Drawn
        ((group_addLayer Drawn ?l (s\<lparr>shapes := (shapes s)(?l \<mapsto> drawn_shape e),
            next_ref := Suc ?l\<rparr>))
          \<lparr>features := (features s)(?l \<mapsto> ?f)\<rparr>))"
  have "only_selection_highlighted ?s4"
    using assms(1)
    by (rule hl_new_shape [where l = ?l and sh = "(drawn_shape e)
          \<lparr>onClick := Some (?l, Drawn), popup := Some (createPopupContent ?f Drawn)\<rparr>"])
      (simp_all add: bindPopup_def on_click_def drawn_shape_def assms(2))
  then have "only_selection_highlighted (selectFeature ?l ?l Drawn True ?s4)"
    by (rule only_selection_highlighted_select)
  moreover have "only_selection_highlighted (handleDrawCreated e now s)
      = only_selection_highlighted (selectFeature ?l ?l Drawn True ?s4)"
    by (rule only_selection_highlighted_cong) (simp_all add: handleDrawCreated_def Let_def)
  ultimately show ?thesis
    by simp
qed

lemma reshape_highlighted [simp]: "highlighted (reshape l g s) x = highlighted s x"
  by (simp add: highlighted_def reshape_def split: option.splits)

lemma toolkit_edit_highlighted [simp]: "highlighted (toolkit_edit e s) x = highlighted s x"
  unfolding toolkit_edit_def
  by (induction e arbitrary: s) (simp_all split: prod.splits)

lemma hl_reshaped:
  "only_selection_highlighted s \<Longrightarrow> only_selection_highlighted (reshape l g s)"
  by (simp add: only_selection_highlighted_def)

lemma hl_edited:
  "only_selection_highlighted s \<Longrightarrow> only_selection_highlighted (handleDrawEdited e s)"
  by (simp add: only_selection_highlighted_cong [of "handleDrawEdited e s" s])

lemma hl_removed:
  "only_selection_highlighted s \<Longrightarrow> only_selection_highlighted (toolkit_remove l s)"
  by (simp add: toolkit_remove_def
      only_selection_highlighted_cong
        [of "(group_removeLayer Drawn l s)\<lparr>deletedLayers := deletedLayers s @ [l]\<rparr>" s])

lemma hl_deleted:
  assumes "only_selection_highlighted s"
  shows "only_selection_highlighted (toolkit_save s)"
proof -
  have "only_selection_highlighted (s\<lparr>deletedLayers := []\<rparr>)"
    using assms by (simp add: only_selection_highlighted_cong [of "s\<lparr>deletedLayers := []\<rparr>" s])
  then show ?thesis
    by (simp add: toolkit_save_def handleDrawDeleted_def hl_deselect)
qed

lemma hl_reverted:
  "only_selection_highlighted s \<Longrightarrow> only_selection_highlighted (toolkit_revert s)"
  by (simp add: toolkit_revert_def
      only_selection_highlighted_cong
        [of "(fold (group_addLayer Drawn) (deletedLayers s) s)\<lparr>deletedLayers := []\<rparr>" s])

lemma hl_rendered:
  "only_selection_highlighted s \<Longrightarrow> only_selection_highlighted (s\<lparr>attributeEditor := ed\<rparr>)"
  by (simp add: only_selection_highlighted_cong [of "s\<lparr>attributeEditor := ed\<rparr>" s])

lemma hl_typed:
  "only_selection_highlighted s \<Longrightarrow> only_selection_highlighted (setInputValue i v s)"
  by (simp add: only_selection_highlighted_cong [of "setInputValue i v s" s])

lemma setPopupContent_highlighted [simp]:
  "highlighted (setPopupContent l c s) x = highlighted s x"
  by (simp add: highlighted_def setPopupContent_def split: option.splits)

lemma saveAttributes_highlighted [simp]: "highlighted (saveAttributes s) x = highlighted s x"
proof -
  have "highlighted (u\<lparr>features := g\<rparr>) x = highlighted u x" for u :: state and g
    by (simp add: highlighted_def)
  then show ?thesis
    by (simp add: saveAttributes_def Let_def highlighted_cong [of "showNotification m ty u" u for m ty u]
        split: option.splits)
qed

lemma hl_saved:
  "only_selection_highlighted s \<Longrightarrow> only_selection_highlighted (saveAttributes s)"
  by (simp add: only_selection_highlighted_def)

lemma hl_toggled:
  "only_selection_highlighted s \<Longrightarrow> only_selection_highlighted (toggleLayer n v s)"
  by (simp add: only_selection_highlighted_cong [of "toggleLayer n v s" s])

lemma reachable_only_selection_highlighted:
  "reachable s \<Longrightarrow> only_selection_highlighted s"
proof (induction rule: reachable.induct)
  case (constructed p)
  show ?case by (rule hl_init)
next
  case (fetched s n res)
  then show ?case by (simp add: hl_load)
next
  case (clicked s l sh f n)
  then show ?case by (simp add: only_selection_highlighted_select)
next
  case (background s)
  then show ?case by (simp add: hl_deselect)
next
  case (tool s t answer)
  then show ?case by (simp add: hl_tool)
next
  case (drawn s e now)
  then show ?case by (simp add: hl_drawn)
next
  case (reshaped s l g)
  then show ?case by (simp add: hl_reshaped)
next
  case (edited s e)
  then show ?case by (simp add: hl_edited)
next
  case (removed s l)
  then show ?case by (simp add: hl_removed)
next
  case (deleted s)
  then show ?case by (simp add: hl_deleted)
next
  case (reverted s)
  then show ?case by (simp add: hl_reverted)
next
  case (typed s i v)
  then show ?case by (simp add: hl_typed)
next
  case (rendered s sel props fm)
  then show ?case by (simp add: hl_rendered)
next
  case (saved s)
  then show ?case by (simp add: hl_saved)
next
  case (deleting s answer)
  then show ?case by (simp add: hl_delete)
next
  case (toggled s n visible)
  then show ?case by (simp add: hl_toggled)
qed

lemma marker_drawn_fields:
  "selectedFeature marker_drawn
     = Some \<lparr>sel_feature = 0, sel_layer = 0, sel_layerName = Drawn\<rparr>"
  "mapLayers marker_drawn = (\<lambda>n. [])(Drawn := [0])"
  "mapShapes marker_drawn = {0}"
  "deletedLayers marker_drawn = []"
  by (simp_all add: marker_drawn_def handleDrawCreated_changes init_def)

lemma marker_drawn_click:
  "\<exists>sh. shapes marker_drawn 0 = Some sh \<and> onClick sh = Some (0, Drawn)"
proof -
  have "map_option shape_core (shapes marker_drawn 0)
      = Some (Marker,
              Some (createPopupContent
                      \<lparr>properties = Some (getDefaultProperties example_clock Households),
                       geometry = ev_geometry marker_event\<rparr> Drawn),
              Some (0, Drawn), ev_geometry marker_event)"
    unfolding marker_drawn_def
    by (simp add: handleDrawCreated_def Let_def)
      (simp add: bindPopup_def on_click_def shape_core_def drawn_shape_def init_def
        marker_event_def)
  then show ?thesis
    by (auto simp add: shape_core_def)
qed

lemma reachable_marker_drawn: "reachable marker_drawn"
  unfolding marker_drawn_def
  by (rule reachable.drawn [OF reachable.constructed])
    (simp add: marker_event_def highlight_options_def)

lemma reachable_marker_clicked: "reachable marker_clicked"
proof -
  obtain sh where "shapes marker_drawn 0 = Some sh" and "onClick sh = Some (0, Drawn)"
    using marker_drawn_click by blast
  then show ?thesis
    unfolding marker_clicked_def
    by (intro reachable.clicked [OF reachable_marker_drawn, where sh = sh])
      (simp_all add: marker_drawn_fields)
qed

lemma reachable_marker_removed: "reachable marker_removed"
  unfolding marker_removed_def
  by (rule reachable.removed [OF reachable_marker_clicked])

lemma marker_removed_fields:
  "selectedFeature marker_removed
     = Some \<lparr>sel_feature = 0, sel_layer = 0, sel_layerName = Drawn\<rparr>"
  "mapLayers marker_removed = (\<lambda>n. [])"
  "deletedLayers marker_removed = [0]"
  by (simp_all add: marker_removed_def marker_clicked_def toolkit_remove_def drawnItems_def
      marker_drawn_fields fun_eq_iff)

lemma juan_selected_kept: "deletedLayers juan_selected = []"
  by (simp add: juan_selected_def sample_state_def loadGeoJSONLayer_def createSampleData_def
      sampleHouseholds_def init_def)

section \<open>The claims\<close>

subsection \<open>C1: saving the owner\<close>

text \<open>
  C1. The claim is that a save, after the owner field of a selected households feature has
  been changed to X, makes the feature's property \<^verbatim>\<open>Owner\<close> be X and puts X into the popup
  of its shape. The code derives the key from the identifier of the input,
  \<^verbatim>\<open>attr-owner\<close>, so it writes the property \<^verbatim>\<open>owner\<close>, while the form and the popup read
  \<^verbatim>\<open>Owner\<close>. In the state reached by a failed households load, a click on the first sample
  household and X typed into the owner field, the save leaves \<^verbatim>\<open>Owner\<close> at Juan Cruz, adds
  \<^verbatim>\<open>owner\<close> with X, and the popup still names Juan Cruz and has no X in it.
\<close>

theorem saveAttributes_owner_not_updated:
  "reachable owner_typed
   \<and> (\<exists>p. feature_properties (saveAttributes owner_typed) 0 = Some p
        \<and> p ''Owner'' = Some (JStr ''Juan Cruz'') \<and> p ''owner'' = Some (JStr ''X''))
   \<and> contains ''Juan Cruz'' (popup_of (saveAttributes owner_typed) 0)
   \<and> \<not> contains ''X'' (popup_of (saveAttributes owner_typed) 0)
   \<and> features (saveAttributes owner_typed) 1 = features owner_typed 1"
proof -
  let ?sel = "\<lparr>sel_feature = 0, sel_layer = 0, sel_layerName = Households\<rparr>"
  have sel: "selectedFeature owner_typed = Some ?sel"
    by (simp add: owner_typed_fields)
  have ft: "features owner_typed (sel_feature ?sel) = Some (sample_feature (sampleHouseholds ! 0))"
    by (simp add: owner_typed_fields)
  have props: "\<exists>p. feature_properties (saveAttributes owner_typed) 0 = Some p
        \<and> p ''Owner'' = Some (JStr ''Juan Cruz'') \<and> p ''owner'' = Some (JStr ''X'')"
    using saveAttributes_features_eq [OF sel ft]
    by (simp add: feature_properties_def owner_typed_fields updatedProperties_def field_key_def
        sample_feature_def sampleHouseholds_def map_add_def)
  have sh: "shapes owner_typed (sel_layer ?sel) =
     Some \<lparr>kind = CircleMarker,
           pathOptions = Some \<lparr>radius = Some 8, fillColor = Some ''#3388ff'', color = ''#ff0000'',
                                weight = 4, opacity = None, fillOpacity = Some (8 / 10)\<rparr>,
           editable = False,
           popup = Some (createPopupContent (sample_feature (sampleHouseholds ! 0)) Households),
           onClick = Some (0, Households),
           shapeGeometry = Point (1253180 / 10000) (122390 / 10000)\<rparr>"
    by (simp add: owner_typed_def juan_selected_shape)
  have popup: "popup_of (saveAttributes owner_typed) 0 =
      createPopupContent
        ((sample_feature (sampleHouseholds ! 0))
           \<lparr>properties :=
              Some ((case properties (sample_feature (sampleHouseholds ! 0)) of
                       None \<Rightarrow> Map.empty | Some p \<Rightarrow> p)
                    ++ updatedProperties
                         (case attributeEditor owner_typed of
                            None \<Rightarrow> [] | Some fm \<Rightarrow> form_inputs fm))\<rparr>)
        Households"
    using saveAttributes_popup [OF sel ft sh] by simp
  have named: "contains ''Juan Cruz'' (popup_of (saveAttributes owner_typed) 0)"
    unfolding popup
    by (simp add: owner_typed_fields updatedProperties_def field_key_def sample_feature_def
        sampleHouseholds_def map_add_def createPopupContent_def por_def nl_def show_int_def
        show_nat.simps capitalize_def to_upper_def)
  have no_x: "\<not> contains ''X'' (popup_of (saveAttributes owner_typed) 0)"
    unfolding popup
    by (simp add: owner_typed_fields updatedProperties_def field_key_def sample_feature_def
        sampleHouseholds_def map_add_def createPopupContent_def por_def nl_def show_int_def
        show_nat.simps capitalize_def to_upper_def)
  have others: "features (saveAttributes owner_typed) 1 = features owner_typed 1"
    by (simp add: saveAttributes_features_eq [OF sel ft])
  from reachable_owner_typed props named no_x others show ?thesis
    by simp
qed

subsection \<open>C2: a failed load\<close>

text \<open>
  C2. When the load of the households layer fails (the fetch is rejected, the status is not
  a success, or the body does not parse), the households group, empty until then, holds
  exactly three shapes, those of the three sample features, whose ids are 101, 102 and 103.
  A failed load of any other layer leaves every group as it was, so the group of that layer
  stays empty.
\<close>

theorem failed_load_samples:
  "failed res \<Longrightarrow> mapLayers s Households = [] \<Longrightarrow>
     mapLayers (loadGeoJSONLayer Households res s) Households
       = [next_ref s, Suc (next_ref s), Suc (Suc (next_ref s))]
     \<and> map (features (loadGeoJSONLayer Households res s))
           (mapLayers (loadGeoJSONLayer Households res s) Households)
         = map (\<lambda>h. Some (sample_feature h)) sampleHouseholds
     \<and> group_ids (loadGeoJSONLayer Households res s) Households
         = [Some (JNum 101), Some (JNum 102), Some (JNum 103)]
     \<and> (n \<noteq> Households \<longrightarrow> mapLayers (loadGeoJSONLayer n res s) = mapLayers s)"
proof -
  assume res: "failed res" and empty: "mapLayers s Households = []"
  let ?t = "showNotification (''Error loading households data'') ''error'' s"
  have load: "loadGeoJSONLayer Households res s = createSampleData Households ?t"
    using res by (cases res) (simp_all add: failed_def loadGeoJSONLayer_def)
  have empty': "mapLayers ?t Households = []"
    using empty by simp
  have group: "mapLayers (loadGeoJSONLayer Households res s) Households
      = [next_ref s, Suc (next_ref s), Suc (Suc (next_ref s))]"
    by (simp add: load createSampleData_households [OF empty'])
  have feats: "map (features (loadGeoJSONLayer Households res s))
      [next_ref s, Suc (next_ref s), Suc (Suc (next_ref s))]
        = map (\<lambda>h. Some (sample_feature h)) sampleHouseholds"
    by (simp add: load createSampleData_households [OF empty'] sampleHouseholds_def)
  have ids: "map (shape_feature_id (loadGeoJSONLayer Households res s))
      [next_ref s, Suc (next_ref s), Suc (Suc (next_ref s))]
        = [Some (JNum 101), Some (JNum 102), Some (JNum 103)]"
    by (simp add: load shape_feature_id_def feature_properties_def createSampleData_shapes
        createSampleData_households [OF empty'] sampleHouseholds_def sample_feature_def)
  have other: "mapLayers (loadGeoJSONLayer n res s) = mapLayers s" if "n \<noteq> Households"
    using res that
    by (cases res) (simp_all add: failed_def loadGeoJSONLayer_def createSampleData_other)
  from group feats ids other show ?thesis
    by (simp add: group_ids_def)
qed

theorem failed_load_samples_witness:
  "failed HttpStatusError
   \<and> mapLayers (init blank_page) Households = []
   \<and> mapLayers (loadGeoJSONLayer Households HttpStatusError (init blank_page)) Households
       = [0, 1, 2]
   \<and> group_ids (loadGeoJSONLayer Households HttpStatusError (init blank_page)) Households
       = [Some (JNum 101), Some (JNum 102), Some (JNum 103)]
   \<and> mapLayers (loadGeoJSONLayer Roads HttpStatusError (init blank_page)) Roads = []"
  using failed_load_samples [of HttpStatusError "init blank_page" Roads]
  by (simp add: failed_def init_def)

subsection \<open>C3: selecting one feature after another\<close>

text \<open>
  C3. Let no shape but the selected one carry the highlight style, as it is in every
  reachable state (lemma \<open>reachable_only_selection_highlighted\<close>), and let feature A, with
  shape \<open>la\<close>, be selected and then feature B, with another shape \<open>lb\<close>. Then in every state
  the two calls go through at most one shape carries the highlight style. The first
  statement of the second call gives the shape of A the unselected style of its layer
  (weight 2, the colour of the layer), and in that state the shape of B is not highlighted
  yet; after the second call the shape of B carries the highlight style (weight 4, red)
  and the shape of A still the unselected one. What is said of the style of a shape is said
  of the shapes that have \<^verbatim>\<open>setStyle\<close>; the others are never styled.
\<close>

theorem selectFeature_twice:
  "only_selection_highlighted s \<Longrightarrow> la \<noteq> lb \<Longrightarrow>
     (\<forall>t \<in> set (selectFeature_trace fa la na ia s
                 @ selectFeature_trace fb lb nb ib (selectFeature fa la na ia s)).
        at_most_one_highlighted t)
     \<and> last (selectFeature_trace fb lb nb ib (selectFeature fa la na ia s))
         = selectFeature fb lb nb ib (selectFeature fa la na ia s)
     \<and> (has_setStyle la s \<longrightarrow>
          highlighted (selectFeature fa la na ia s) la
          \<and> normal_style na (restoreSelectedStyle (selectFeature fa la na ia s)) la
          \<and> normal_style na (selectFeature fb lb nb ib (selectFeature fa la na ia s)) la)
     \<and> \<not> highlighted (restoreSelectedStyle (selectFeature fa la na ia s)) lb
     \<and> (has_setStyle lb s \<longrightarrow>
          highlighted (selectFeature fb lb nb ib (selectFeature fa la na ia s)) lb)
     \<and> \<not> highlighted (selectFeature fb lb nb ib (selectFeature fa la na ia s)) la"
proof -
  assume inv: "only_selection_highlighted s" and distinct: "la \<noteq> lb"
  let ?sA = "selectFeature fa la na ia s"
  let ?sB = "selectFeature fb lb nb ib ?sA"
  have invA: "only_selection_highlighted ?sA"
    using inv by (rule only_selection_highlighted_select)
  have traces: "\<forall>t \<in> set (selectFeature_trace fa la na ia s
      @ selectFeature_trace fb lb nb ib ?sA). at_most_one_highlighted t"
    using trace_at_most_one [OF inv] trace_at_most_one [OF invA] by auto
  have restored: "normal_style na (restoreSelectedStyle ?sA) la" if "has_setStyle la s"
    using normal_style_restore
      [of ?sA "\<lparr>sel_feature = fa, sel_layer = la, sel_layerName = na\<rparr>"] that
    by simp
  have kept: "normal_style na ?sB la" if "has_setStyle la s"
    using restored [OF that] distinct
    by (simp add: selectFeature_def [of fb lb nb ib] normal_style_highlight_other)
  show ?thesis
    using traces restored kept distinct
    by (simp add: selectFeature_trace_last highlighted_selectFeature [OF inv]
        highlighted_selectFeature [OF invA] highlighted_restore [OF invA])
qed

theorem selectFeature_twice_witness:
  "only_selection_highlighted sample_state
   \<and> (0::nat) \<noteq> 1
   \<and> has_setStyle 0 sample_state
   \<and> has_setStyle 1 sample_state
   \<and> highlighted juan_selected 0
   \<and> normal_style Households (restoreSelectedStyle juan_selected) 0
   \<and> \<not> highlighted (restoreSelectedStyle juan_selected) 1
   \<and> highlighted (selectFeature 1 1 Households False juan_selected) 1
   \<and> normal_style Households (selectFeature 1 1 Households False juan_selected) 0
   \<and> \<not> highlighted (selectFeature 1 1 Households False juan_selected) 0
   \<and> at_most_one_highlighted (restoreSelectedStyle juan_selected)
   \<and> at_most_one_highlighted (selectFeature 1 1 Households False juan_selected)"
proof -
  have inv: "only_selection_highlighted sample_state"
    unfolding only_selection_highlighted_def
  proof (intro allI impI)
    fix l
    assume "highlighted sample_state l"
    then have False
      by (simp add: highlighted_def sample_state_def loadGeoJSONLayer_def
          createSampleData_shapes init_def blank_page_def showNotification_def
          sample_marker_def highlight_options_def split: if_splits)
    then show "case selectedFeature sample_state of None \<Rightarrow> False
        | Some sel \<Rightarrow> sel_layer sel = l" ..
  qed
  have styled: "has_setStyle 0 sample_state" "has_setStyle 1 sample_state"
    by (simp_all add: has_setStyle_def sample_state_fields sample_marker_def)
  have members:
    "restoreSelectedStyle juan_selected
       \<in> set (selectFeature_trace 0 0 Households False sample_state
              @ selectFeature_trace 1 1 Households False juan_selected)"
    "selectFeature 1 1 Households False juan_selected
       \<in> set (selectFeature_trace 0 0 Households False sample_state
              @ selectFeature_trace 1 1 Households False juan_selected)"
    by (simp_all add: selectFeature_trace_def Let_def selectFeature_def)
  have distinct: "(0::nat) \<noteq> 1"
    by simp
  from selectFeature_twice [OF inv distinct, of 0 Households False 1 Households False]
    styled members inv
  show ?thesis
    by (simp add: juan_selected_def)
qed

subsection \<open>C4: deleting the selected feature\<close>

text \<open>
  C4. With a selection, \<^verbatim>\<open>deleteSelectedFeature\<close> without the user's confirmation leaves the
  whole state as it was, so the shape stays in its group; with the confirmation the shape
  is no longer on the map, in the group of its layer or in the drawn-items group, and
  nothing is selected. With no selection the call changes nothing.
\<close>

theorem deleteSelectedFeature_confirmation:
  "deleteSelectedFeature False s = s
   \<and> (selectedFeature s = None \<longrightarrow> deleteSelectedFeature answer s = s)
   \<and> (selectedFeature s = Some sel \<longrightarrow>
        (sel_layer sel \<in> set (mapLayers s n) \<longrightarrow>
           sel_layer sel \<in> set (mapLayers (deleteSelectedFeature False s) n))
        \<and> sel_layer sel \<notin> mapShapes (deleteSelectedFeature True s)
        \<and> sel_layer sel \<notin> set (mapLayers (deleteSelectedFeature True s) (sel_layerName sel))
        \<and> sel_layer sel \<notin> set (drawnItems (deleteSelectedFeature True s))
        \<and> selectedFeature (deleteSelectedFeature True s) = None)"
proof -
  have unconfirmed: "deleteSelectedFeature False s = s"
    by (simp add: deleteSelectedFeature_def split: option.splits)
  have unselected: "deleteSelectedFeature answer s = s" if "selectedFeature s = None"
    using that by (simp add: deleteSelectedFeature_def)
  have confirmed:
    "sel_layer sel \<notin> mapShapes (deleteSelectedFeature True s)
     \<and> sel_layer sel \<notin> set (mapLayers (deleteSelectedFeature True s) (sel_layerName sel))
     \<and> sel_layer sel \<notin> set (drawnItems (deleteSelectedFeature True s))
     \<and> selectedFeature (deleteSelectedFeature True s) = None"
    if "selectedFeature s = Some sel"
    using that by (simp add: deleteSelectedFeature_changes drawnItems_def)
  from unconfirmed unselected confirmed show ?thesis
    by simp
qed

theorem deleteSelectedFeature_confirmation_witness:
  "selectedFeature juan_selected
     = Some \<lparr>sel_feature = 0, sel_layer = 0, sel_layerName = Households\<rparr>
   \<and> 0 \<in> set (mapLayers juan_selected Households)
   \<and> deleteSelectedFeature False juan_selected = juan_selected
   \<and> 0 \<in> set (mapLayers (deleteSelectedFeature False juan_selected) Households)
   \<and> 0 \<notin> mapShapes (deleteSelectedFeature True juan_selected)
   \<and> 0 \<notin> set (mapLayers (deleteSelectedFeature True juan_selected) Households)
   \<and> 0 \<notin> set (drawnItems (deleteSelectedFeature True juan_selected))
   \<and> selectedFeature (deleteSelectedFeature True juan_selected) = None
   \<and> selectedFeature sample_state = None
   \<and> deleteSelectedFeature True sample_state = sample_state"
  using deleteSelectedFeature_confirmation
      [of juan_selected True "\<lparr>sel_feature = 0, sel_layer = 0, sel_layerName = Households\<rparr>"
        Households]
    deleteSelectedFeature_confirmation
      [of sample_state True "\<lparr>sel_feature = 0, sel_layer = 0, sel_layerName = Households\<rparr>" Households]
  by (simp add: juan_selected_fields sample_state_fields)

subsection \<open>C5: a shape has been drawn\<close>



subsection \<open>C6: layer visibility\<close>

text \<open>
  C6. For every layer name and every state, switching the layer off and then on leaves
  every layer group with the shapes it had, in the same order, and the shapes and features
  as they were, so no pair of a feature and its shape is lost or doubled; the shapes of the
  layer are on the map again; and a layer that is switched on becomes the current layer.
\<close>

theorem toggleLayer_off_on:
  "mapLayers (toggleLayer n True (toggleLayer n False s)) = mapLayers s
   \<and> shapes (toggleLayer n True (toggleLayer n False s)) = shapes s
   \<and> features (toggleLayer n True (toggleLayer n False s)) = features s
   \<and> set (mapLayers s n) \<subseteq> mapShapes (toggleLayer n True (toggleLayer n False s))
   \<and> currentLayer (toggleLayer n True s) = n"
  by (auto simp add: toggleLayer_def)

subsection \<open>C7: the selection refers to a shape of some group\<close>

text \<open>
  C7, as stated, fails. The controller holds at most one selection: the field is one
  optional value. But the selection need not be of a shape that a layer group holds. The
  user draws a marker and, with the toolkit in remove mode, clicks it: the controller's
  click handler selects the marker, the toolkit takes it out of the drawn-items group, and
  the controller hears nothing until the mode is saved. In that state the selection is of a
  shape that no group holds.
\<close>

theorem selection_of_removed_shape:
  "reachable marker_removed
   \<and> selectedFeature marker_removed
       = Some \<lparr>sel_feature = 0, sel_layer = 0, sel_layerName = Drawn\<rparr>
   \<and> deletedLayers marker_removed = [0]
   \<and> \<not> selection_in_group marker_removed"
  by (simp add: reachable_marker_removed marker_removed_fields selection_in_group_iff)

text \<open>
  C7, amended. In every reachable state the selection, when there is one, is of a shape
  that some layer group holds, or that the toolkit's remove mode has taken out of the
  drawn-items group and still keeps; so it is of a shape of some group whenever the remove
  mode keeps no shape. Each of the controller's operations leaves the selection in a
  group: \<^verbatim>\<open>selectFeature\<close> on a shape of some group, \<^verbatim>\<open>deselectFeature\<close>,
  \<^verbatim>\<open>deleteSelectedFeature\<close> when it was so before, the draw-created handler and the
  draw-deleted handler.
\<close>

theorem selection_refers_to_held_shape:
  "(reachable s \<longrightarrow> selection_held s \<and> (deletedLayers s = [] \<longrightarrow> selection_in_group s))
   \<and> (in_some_group t l \<longrightarrow> selection_in_group (selectFeature f l n b t))
   \<and> selection_in_group (deselectFeature t)
   \<and> (selection_in_group t \<longrightarrow> selection_in_group (deleteSelectedFeature answer t))
   \<and> selection_in_group (handleDrawCreated e now t)
   \<and> selection_in_group (handleDrawDeleted d t)"
proof -
  have held: "selection_held s" if "reachable s"
    using reachable_inv [OF that] by (simp add: controller_inv_def)
  have reach: "selection_in_group s" if "reachable s" and "deletedLayers s = []"
    using held [OF that(1)] that(2)
    by (simp add: selection_held_iff selection_in_group_iff)
  have select: "selection_in_group (selectFeature f l n b t)" if "in_some_group t l"
    using that by (simp add: selection_in_group_def in_some_group_def)
  have deselect: "selection_in_group (deselectFeature t)"
    by (simp add: selection_in_group_def)
  have delete: "selection_in_group (deleteSelectedFeature answer t)" if "selection_in_group t"
  proof (cases answer)
    case True
    then show ?thesis
      by (simp add: selection_in_group_def deleteSelectedFeature_changes)
  next
    case False
    have "deleteSelectedFeature False t = t"
      by (simp add: deleteSelectedFeature_def split: option.splits)
    with that False show ?thesis
      by simp
  qed
  have created: "selection_in_group (handleDrawCreated e now t)"
  proof -
    have "next_ref t \<in> set (mapLayers (handleDrawCreated e now t) Drawn)"
      by (simp add: handleDrawCreated_changes)
    then have "\<exists>m. next_ref t \<in> set (mapLayers (handleDrawCreated e now t) m)" ..
    then show ?thesis
      by (simp add: selection_in_group_iff handleDrawCreated_changes(1))
  qed
  have deleted: "selection_in_group (handleDrawDeleted d t)"
    by (simp add: selection_in_group_def handleDrawDeleted_def)
  from held reach select deselect delete created deleted show ?thesis
    by blast
qed

theorem selection_refers_to_held_shape_witness:
  "reachable marker_removed
   \<and> selection_held marker_removed
   \<and> reachable juan_selected
   \<and> deletedLayers juan_selected = []
   \<and> selectedFeature juan_selected
       = Some \<lparr>sel_feature = 0, sel_layer = 0, sel_layerName = Households\<rparr>
   \<and> selection_in_group juan_selected
   \<and> in_some_group sample_state 0
   \<and> selection_in_group (selectFeature 0 0 Households False sample_state)
   \<and> selection_in_group (deleteSelectedFeature True juan_selected)"
  using selection_refers_to_held_shape
    [of marker_removed sample_state 0 0 Households False True marker_event example_clock "[]"]
    selection_refers_to_held_shape
    [of juan_selected juan_selected 0 0 Households False True marker_event example_clock "[]"]
  by (simp add: reachable_marker_removed reachable_juan_selected juan_selected_fields
      juan_selected_kept in_some_group_def all_layers_def sample_state_fields)

subsection \<open>C8: the draw-edited handler\<close>

text \<open>
  C8. For every draw-edited event, \<^verbatim>\<open>handleDrawEdited\<close> changes no feature, no layer group
  and not the selection: it only shows a notification. In particular, after the toolkit has
  reshaped the shapes of the event, the features still have the geometry they had.
\<close>

theorem handleDrawEdited_only_notifies:
  "handleDrawEdited e s
     = s\<lparr>notifications := notifications s @ [(''Features updated successfully'', ''success'')]\<rparr>
   \<and> features (handleDrawEdited e (toolkit_edit e s)) = features s
   \<and> mapLayers (handleDrawEdited e (toolkit_edit e s)) = mapLayers s
   \<and> selectedFeature (handleDrawEdited e (toolkit_edit e s)) = selectedFeature s"
  by (simp add: handleDrawEdited_def showNotification_def)

subsection \<open>C9: the keys a save leaves alone\<close>

text \<open>
  C9. For every selected feature, \<^verbatim>\<open>saveAttributes\<close> keeps the value of every property whose
  key is not one of the keys derived from the inputs of the form shown, whatever that form
  is: the merge adds or overwrites those keys only. So \<^verbatim>\<open>senior/PWD\<close> and \<^verbatim>\<open>Contact no\<close>
  keep their values whenever the form has no input for them, as for a household that the
  endpoint has served.
\<close>

theorem saveAttributes_keeps_other_keys:
  "selectedFeature s = Some sel \<Longrightarrow> features s (sel_feature sel) = Some ft
   \<Longrightarrow> k \<notin> set (form_keys s) \<Longrightarrow>
     (\<exists>p'. feature_properties (saveAttributes s) (sel_feature sel) = Some p'
        \<and> p' k = (case properties ft of None \<Rightarrow> None | Some p \<Rightarrow> p k))"
proof -
  assume sel: "selectedFeature s = Some sel" and ft: "features s (sel_feature sel) = Some ft"
    and k: "k \<notin> set (form_keys s)"
  let ?inputs = "case attributeEditor s of None \<Rightarrow> [] | Some fm \<Rightarrow> form_inputs fm"
  from k have "k \<notin> field_key ` set ?inputs"
    by (cases "attributeEditor s") (simp_all add: form_keys_def)
  then have "updatedProperties ?inputs k = None"
    by (rule updatedProperties_other)
  then show ?thesis
    by (simp add: feature_properties_def saveAttributes_features_eq [OF sel ft] map_add_def
        split: option.splits)
qed

theorem saveAttributes_keeps_other_keys_witness:
  "selectedFeature census_selected
     = Some \<lparr>sel_feature = 0, sel_layer = 0, sel_layerName = Households\<rparr>
   \<and> features census_selected 0 = Some census_feature
   \<and> ''senior/PWD'' \<notin> set (form_keys census_selected)
   \<and> ''Contact no'' \<notin> set (form_keys census_selected)
   \<and> (\<exists>p'. feature_properties (saveAttributes census_selected) 0 = Some p'
         \<and> p' ''senior/PWD'' = Some (JStr ''yes''))
   \<and> (\<exists>p'. feature_properties (saveAttributes census_selected) 0 = Some p'
         \<and> p' ''Contact no'' = Some (JStr ''0917''))"
  using saveAttributes_keeps_other_keys
    [of census_selected "\<lparr>sel_feature = 0, sel_layer = 0, sel_layerName = Households\<rparr>"
      census_feature "''senior/PWD''"]
    saveAttributes_keeps_other_keys
    [of census_selected "\<lparr>sel_feature = 0, sel_layer = 0, sel_layerName = Households\<rparr>"
      census_feature "''Contact no''"]
  by (simp add: census_selected_fields census_selected_keys) (simp add: census_feature_def)

subsection \<open>C10: default properties of the layers without an entry\<close>

text \<open>
  C10. For every layer name outside households, facilities and drawn (roads and boundary),
  \<^verbatim>\<open>getDefaultProperties\<close> returns the fallback record, an id read from the clock and the
  name \<^verbatim>\<open>New Feature\<close>; so a feature drawn while such a layer is current has an id and a
  name.
\<close>

theorem getDefaultProperties_fallback:
  "layerName \<notin> {Households, Facilities, Drawn} \<Longrightarrow>
     getDefaultProperties now layerName
       = [''id'' \<mapsto> JNum (now 3), ''name'' \<mapsto> JStr ''New Feature'']
     \<and> (currentLayer s = layerName \<longrightarrow>
          features (handleDrawCreated e now s) (next_ref s)
            = Some \<lparr>properties = Some [''id'' \<mapsto> JNum (now 3), ''name'' \<mapsto> JStr ''New Feature''],
                    geometry = ev_geometry e\<rparr>)"
  by (cases layerName) (simp_all add: getDefaultProperties_def handleDrawCreated_changes)

theorem getDefaultProperties_fallback_witness:
  "Roads \<notin> {Households, Facilities, Drawn}
   \<and> getDefaultProperties example_clock Roads
       = [''id'' \<mapsto> JNum 1700000000003, ''name'' \<mapsto> JStr ''New Feature'']
   \<and> currentLayer (toggleLayer Roads True (init blank_page)) = Roads
   \<and> features (handleDrawCreated marker_event example_clock (toggleLayer Roads True (init blank_page))) 0
       = Some \<lparr>properties = Some [''id'' \<mapsto> JNum 1700000000003, ''name'' \<mapsto> JStr ''New Feature''],
               geometry = Point (1253185 / 10000) (122392 / 10000)\<rparr>"
  using getDefaultProperties_fallback
    [of Roads example_clock "toggleLayer Roads True (init blank_page)" marker_event]
  by (simp add: example_clock_def toggleLayer_def init_def marker_event_def)

end
